theory Spec2Isabelle
  imports Main
begin

section \<open>FileProcessingQueue: job status records\<close>

text \<open>
  Embedding of \<^verbatim>\<open>creator-node/src/FileProcessingQueue.js\<close>. The Redis client is an
  explicit store from keys to a value with its \<^verbatim>\<open>EX\<close> time to live in seconds; every
  \<^verbatim>\<open>redisClient.set\<close> and every call of the processing function is also appended to a
  list of effects, so that their order can be stated. Logging (\<^verbatim>\<open>logStatus\<close>,
  \<^verbatim>\<open>logError\<close>) writes nothing that the functions below read and is left out.
\<close>

definition MAX_CONCURRENCY :: nat where
  "MAX_CONCURRENCY = 100"

definition EXPIRATION :: nat where
  "EXPIRATION = 86400"

datatype process_name = trackContentUpload | transcodeAndSegment | processTranscodeAndSegments

fun PROCESS_NAMES :: "process_name \<Rightarrow> string" where
  "PROCESS_NAMES trackContentUpload = ''trackContentUpload''"
| "PROCESS_NAMES transcodeAndSegment = ''transcodeAndSegment''"
| "PROCESS_NAMES processTranscodeAndSegments = ''processTranscodeAndSegments''"

datatype process_state = IN_PROGRESS | DONE | FAILED

definition constructProcessKey :: "string \<Rightarrow> string \<Rightarrow> string" where
  "constructProcessKey taskType uuid = taskType @ '':::'' @ uuid"

text \<open>A thrown JavaScript \<^verbatim>\<open>Error\<close>: its \<^verbatim>\<open>name\<close> and its \<^verbatim>\<open>message\<close>.\<close>

datatype js_error = JsError (err_name: string) (message: string)

text \<open>\<^verbatim>\<open>Error.prototype.toString\<close>: the name, the message, or both joined by a colon.\<close>

definition toString :: "js_error \<Rightarrow> string" where
  "toString e =
     (if err_name e = [] then message e
      else if message e = [] then err_name e
      else err_name e @ '': '' @ message e)"

text \<open>
  The object \<^verbatim>\<open>{ status, resp }\<close> that is stringified into Redis: \<^verbatim>\<open>resp\<close> is absent
  while in progress, the handler's response when done, the error message when failed.
\<close>

datatype 'r resp_value = Response 'r | Message string

record 'r status_record =
  status :: process_state
  resp :: "'r resp_value option"

record log_context =
  requestID :: string

record 'q job_params =
  logContext :: log_context
  req :: 'q

datatype 'r effect = RedisSet string "'r status_record" nat | Invoke log_context

record 'r redis_state =
  store :: "string \<rightharpoonup> 'r status_record \<times> nat"
  effects :: "'r effect list"

definition redis_set :: "string \<Rightarrow> 'r status_record \<Rightarrow> nat \<Rightarrow> 'r redis_state \<Rightarrow> 'r redis_state" where
  "redis_set k v ex s =
     s\<lparr>store := (store s)(k \<mapsto> (v, ex)), effects := effects s @ [RedisSet k v ex]\<rparr>"

definition invoke :: "log_context \<Rightarrow> 'r redis_state \<Rightarrow> 'r redis_state" where
  "invoke ctx s = s\<lparr>effects := effects s @ [Invoke ctx]\<rparr>"

text \<open>
  \<^verbatim>\<open>monitorProgress(taskType, func, { logContext, req })\<close>. The processing function is a
  parameter: it returns \<open>Inr response\<close> or throws, \<open>Inl e\<close>. A throw is recorded and
  rethrown.
\<close>

definition monitorProgress ::
  "string \<Rightarrow> (log_context \<Rightarrow> 'q \<Rightarrow> js_error + 'r) \<Rightarrow> 'q job_params \<Rightarrow> 'r redis_state
     \<Rightarrow> (js_error + 'r) \<times> 'r redis_state" where
  "monitorProgress taskType func params s =
     (let uuid = requestID (logContext params);
          redisKey = constructProcessKey taskType uuid;
          s1 = redis_set redisKey \<lparr>status = IN_PROGRESS, resp = None\<rparr> EXPIRATION s;
          s2 = invoke (logContext params) s1
      in case func (logContext params) (req params) of
           Inr response \<Rightarrow>
             (Inr response,
              redis_set redisKey \<lparr>status = DONE, resp = Some (Response response)\<rparr> EXPIRATION s2)
         | Inl e \<Rightarrow>
             (Inl e,
              redis_set redisKey \<lparr>status = FAILED, resp = Some (Message (message e))\<rparr> EXPIRATION s2))"

text \<open>
  A queue processor \<^verbatim>\<open>async (job, done) => ...\<close> ends in one of three ways:
  \<^verbatim>\<open>done(null, { response })\<close>, \<^verbatim>\<open>done(e.toString())\<close>, or its own promise rejects
  without \<^verbatim>\<open>done\<close> being called (the \<^verbatim>\<open>catch\<close> block itself throws a
  \<^verbatim>\<open>TypeError\<close> when \<^verbatim>\<open>job.data\<close> has no \<^verbatim>\<open>trackContentUploadParams\<close>).
\<close>

datatype 'r job_result = DoneOk 'r | DoneErr string | Rejected js_error

record 'q job_data =
  trackContentUploadParams :: "'q job_params option"

text \<open>The two processing functions imported from \<^verbatim>\<open>tracksComponentService\<close>.\<close>

record ('q, 'r) processing_fns =
  trackContentUpload_fn :: "log_context \<Rightarrow> 'q \<Rightarrow> js_error + 'r"
  transcodeAndSegment_fn :: "log_context \<Rightarrow> 'q \<Rightarrow> js_error + 'r"

definition destructure_TypeError :: js_error where
  "destructure_TypeError = JsError ''TypeError'' ''Cannot destructure property of undefined''"

text \<open>The processor registered under \<^verbatim>\<open>PROCESS_NAMES.trackContentUpload\<close> (lines 45 to 70).\<close>

definition processor_trackContentUpload ::
  "('q, 'r) processing_fns \<Rightarrow> 'q job_data \<Rightarrow> 'r redis_state \<Rightarrow> 'r job_result \<times> 'r redis_state" where
  "processor_trackContentUpload fns job_data s =
     (case trackContentUploadParams job_data of
        None \<Rightarrow> (Rejected destructure_TypeError, s)
      | Some params \<Rightarrow>
          (case monitorProgress (PROCESS_NAMES trackContentUpload) (trackContentUpload_fn fns) params s of
             (Inr response, s') \<Rightarrow> (DoneOk response, s')
           | (Inl e, s') \<Rightarrow> (DoneErr (toString e), s')))"

text \<open>The processor registered under \<^verbatim>\<open>PROCESS_NAMES.transcodeAndSegment\<close> (lines 72 to 97).\<close>

definition processor_transcodeAndSegment ::
  "('q, 'r) processing_fns \<Rightarrow> 'q job_data \<Rightarrow> 'r redis_state \<Rightarrow> 'r job_result \<times> 'r redis_state" where
  "processor_transcodeAndSegment fns job_data s =
     (case trackContentUploadParams job_data of
        None \<Rightarrow> (Rejected destructure_TypeError, s)
      | Some params \<Rightarrow>
          (case monitorProgress (PROCESS_NAMES trackContentUpload) (trackContentUpload_fn fns) params s of
             (Inr response, s') \<Rightarrow> (DoneOk response, s')
           | (Inl e, s') \<Rightarrow> (DoneErr (toString e), s')))"

text \<open>
  The constructor's two \<^verbatim>\<open>this.queue.process(name, MAX_CONCURRENCY, handler)\<close> calls, as
  the table of registered processors in registration order.
\<close>

definition registered_processors ::
  "('q, 'r) processing_fns \<Rightarrow>
     (string \<times> nat \<times> ('q job_data \<Rightarrow> 'r redis_state \<Rightarrow> 'r job_result \<times> 'r redis_state)) list" where
  "registered_processors fns =
     [(PROCESS_NAMES trackContentUpload, MAX_CONCURRENCY, processor_trackContentUpload fns),
      (PROCESS_NAMES transcodeAndSegment, MAX_CONCURRENCY, processor_transcodeAndSegment fns)]"

definition processor_for ::
  "('q, 'r) processing_fns \<Rightarrow> string
     \<Rightarrow> ('q job_data \<Rightarrow> 'r redis_state \<Rightarrow> 'r job_result \<times> 'r redis_state) option" where
  "processor_for fns name = map_option snd (map_of (registered_processors fns) name)"

section \<open>utils: findCIDInNetwork\<close>

text \<open>
  Embedding of \<^verbatim>\<open>findCIDInNetwork\<close> of \<^verbatim>\<open>creator-node/src/utils.js\<close>. The local file
  system is a map from paths to contents; the Redis set \<^verbatim>\<open>attempted_fs_fixes:<date>\<close>
  is a set of paths. What lies outside the function is an oracle: the list returned by
  \<^verbatim>\<open>getAllRegisteredCNodes\<close>, the answer of each node to \<^verbatim>\<open>/file_lookup\<close>, and the
  content hash computed by \<^verbatim>\<open>generateNonImageMultihash\<close>.
\<close>

record cnode =
  endpoint :: string
  node_spID :: int

datatype lookup_response =
    RequestThrows
  | NoData
  | Data string
  | BrokenStream string

record network =
  creatorNodes :: "cnode list"
  file_lookup :: "string \<Rightarrow> string \<Rightarrow> int option \<Rightarrow> lookup_response"
  multihash_of :: "string \<Rightarrow> string"

record fs_state =
  disk :: "string \<rightharpoonup> string"
  attempted_fs_fixes :: "string set"

text \<open>
  \<^verbatim>\<open>getIfAttemptedStateFix\<close>: \<^verbatim>\<open>redis.sadd\<close> returns 1 for a new member, and the
  function returns its negation.
\<close>

definition getIfAttemptedStateFix :: "string \<Rightarrow> fs_state \<Rightarrow> bool \<times> fs_state" where
  "getIfAttemptedStateFix filePath s =
     (let firstTime = (filePath \<notin> attempted_fs_fixes s)
      in (\<not> firstTime, s\<lparr>attempted_fs_fixes := insert filePath (attempted_fs_fixes s)\<rparr>))"

definition writeStreamToFileSystem :: "string \<Rightarrow> string \<Rightarrow> fs_state \<Rightarrow> fs_state" where
  "writeStreamToFileSystem content filePath s = s\<lparr>disk := (disk s)(filePath \<mapsto> content)\<rparr>"

definition unlink :: "string \<Rightarrow> fs_state \<Rightarrow> fs_state" where
  "unlink filePath s = s\<lparr>disk := (disk s)(filePath := None)\<rparr>"

text \<open>\<^verbatim>\<open>generateNonImageMultihash(filePath)\<close> reads the file; a missing file throws.\<close>

definition generateNonImageMultihash :: "network \<Rightarrow> string \<Rightarrow> fs_state \<Rightarrow> string option" where
  "generateNonImageMultihash net filePath s = map_option (multihash_of net) (disk s filePath)"

text \<open>
  The \<^verbatim>\<open>for\<close> loop over \<^verbatim>\<open>creatorNodesFiltered\<close>. A thrown request, a stream that
  breaks while it is written, and a hash that cannot be computed all land in the
  \<^verbatim>\<open>catch\<close> and continue with the next node; a response without data falls through to
  the next iteration. After the hash comparison the loop sets \<^verbatim>\<open>found = true\<close> and
  breaks.
\<close>

fun findCID_loop ::
  "network \<Rightarrow> string \<Rightarrow> string \<Rightarrow> int option \<Rightarrow> cnode list \<Rightarrow> fs_state \<Rightarrow> bool \<times> fs_state" where
  "findCID_loop net filePath cid trackId [] s = (False, s)"
| "findCID_loop net filePath cid trackId (node # nodes) s =
     (case file_lookup net (endpoint node) filePath trackId of
        RequestThrows \<Rightarrow> findCID_loop net filePath cid trackId nodes s
      | NoData \<Rightarrow> findCID_loop net filePath cid trackId nodes s
      | BrokenStream partial \<Rightarrow>
          findCID_loop net filePath cid trackId nodes (writeStreamToFileSystem partial filePath s)
      | Data content \<Rightarrow>
          (let s1 = writeStreamToFileSystem content filePath s
           in case generateNonImageMultihash net filePath s1 of
                None \<Rightarrow> findCID_loop net filePath cid trackId nodes s1
              | Some ipfsHashOnly \<Rightarrow>
                  (let s2 = (if cid \<noteq> ipfsHashOnly then unlink filePath s1 else s1)
                   in (True, s2))))"

text \<open>
  \<^verbatim>\<open>findCIDInNetwork(filePath, cid, logger, libs, trackId, excludeList)\<close>. The two early
  \<^verbatim>\<open>return\<close> statements return \<^verbatim>\<open>undefined\<close>, here \<open>None\<close>.
\<close>

definition findCIDInNetwork ::
  "network \<Rightarrow> string \<Rightarrow> string \<Rightarrow> int option \<Rightarrow> string list \<Rightarrow> fs_state
     \<Rightarrow> bool option \<times> fs_state" where
  "findCIDInNetwork net filePath cid trackId excludeList s =
     (let (attemptedStateFix, s1) = getIfAttemptedStateFix filePath s
      in if attemptedStateFix then (None, s1)
         else if creatorNodes net = [] then (None, s1)
         else
           (let creatorNodesFiltered =
                  filter (\<lambda>c. endpoint c \<notin> set excludeList) (creatorNodes net);
                (found, s2) = findCID_loop net filePath cid trackId creatorNodesFiltered s1
            in (Some found, s2)))"

subsection \<open>A concrete network\<close>

text \<open>
  One registered node, which answers every lookup with the bytes \<^verbatim>\<open>bad\<close>; the only
  content whose hash is \<^verbatim>\<open>QmGood\<close> is \<^verbatim>\<open>good\<close>.
\<close>

definition example_lookup :: "string \<Rightarrow> string \<Rightarrow> int option \<Rightarrow> lookup_response" where
  "example_lookup nodeEndpoint filePath trackId = Data ''bad''"

definition example_multihash :: "string \<Rightarrow> string" where
  "example_multihash content = (if content = ''good'' then ''QmGood'' else ''QmBad'')"

definition example_network :: network where
  "example_network =
     \<lparr>creatorNodes = [\<lparr>endpoint = ''https://cn2.example'', node_spID = 2\<rparr>],
      file_lookup = example_lookup,
      multihash_of = example_multihash\<rparr>"

section \<open>ServiceRegistry: identity bootstrap\<close>

text \<open>
  Embedding of the retry loops of \<^verbatim>\<open>ServiceRegistry\<close> that bind a node to its
  on-chain identity. The chain client is an oracle indexed by the number of calls made
  before: the \<open>k\<close>-th call of a method returns what the oracle gives at \<open>k\<close>. Every
  \<^verbatim>\<open>utils.timeout(ms)\<close> is appended to the list \<open>timeouts\<close>. A loop that never leaves
  has the value \<open>None\<close>.
\<close>

datatype sp_response = SpThrows | SpID int

datatype client_response = InitThrows | InitReturns bool

record chain_oracle =
  getServiceProviderIdFromEndpoint :: "nat \<Rightarrow> sp_response"
  initUserReplicaSetManagerClient :: "nat \<Rightarrow> client_response"
  URSMRegistrationManager_run :: "nat \<Rightarrow> bool"
  snapbackSM_init :: "nat \<Rightarrow> bool"
  devMode :: bool

record registry_state =
  spID :: "int option"
  snapbackSM :: bool
  syncQueue :: bool
  UserReplicaSetManagerClient :: bool
  URSMRegistrationManager :: bool
  registeredOnURSM :: bool
  skippedCIDsRetryQueue :: bool
  servicesThatRequireServerInitialized :: bool
  timeouts :: "nat list"

definition timeout :: "nat \<Rightarrow> registry_state \<Rightarrow> registry_state" where
  "timeout ms s = s\<lparr>timeouts := timeouts s @ [ms]\<rparr>"

text \<open>
  The loop of \<^verbatim>\<open>_recoverNodeL1Identity\<close>, with \<^verbatim>\<open>retryTimeoutMs = 5000\<close>; \<open>attempt\<close>
  counts the calls already made.
\<close>

partial_function (option) recoverNodeL1Identity_loop ::
  "chain_oracle \<Rightarrow> nat \<Rightarrow> registry_state \<Rightarrow> registry_state option" where
  "recoverNodeL1Identity_loop env attempt s =
     (case getServiceProviderIdFromEndpoint env attempt of
        SpID n \<Rightarrow>
          if n \<noteq> 0 then Some (s\<lparr>spID := Some n\<rparr>)
          else recoverNodeL1Identity_loop env (Suc attempt) (timeout 5000 s)
      | SpThrows \<Rightarrow> recoverNodeL1Identity_loop env (Suc attempt) (timeout 5000 s))"

definition recoverNodeL1Identity :: "chain_oracle \<Rightarrow> registry_state \<Rightarrow> registry_state option" where
  "recoverNodeL1Identity env s = recoverNodeL1Identity_loop env 0 s"

text \<open>The loop of \<^verbatim>\<open>_initSnapbackSM\<close>, with \<^verbatim>\<open>retryTimeoutMs = 10000\<close>.\<close>

partial_function (option) initSnapbackSM_loop ::
  "chain_oracle \<Rightarrow> nat \<Rightarrow> registry_state \<Rightarrow> registry_state option" where
  "initSnapbackSM_loop env attempt s =
     (if snapbackSM_init env attempt then Some (s\<lparr>snapbackSM := True\<rparr>)
      else initSnapbackSM_loop env (Suc attempt) (timeout 10000 s))"

definition initSnapbackSM :: "chain_oracle \<Rightarrow> registry_state \<Rightarrow> registry_state option" where
  "initSnapbackSM env s = initSnapbackSM_loop env 0 s"

text \<open>
  The first loop of \<^verbatim>\<open>_registerNodeOnL2URSM\<close>: it leaves once
  \<^verbatim>\<open>libs.contracts.UserReplicaSetManagerClient\<close> is set after a call that did not throw.
\<close>

partial_function (option) initURSMClient_loop ::
  "chain_oracle \<Rightarrow> nat \<Rightarrow> nat \<Rightarrow> registry_state \<Rightarrow> registry_state option" where
  "initURSMClient_loop env retryTimeoutMs attempt s =
     (case initUserReplicaSetManagerClient env attempt of
        InitReturns present \<Rightarrow>
          if present then Some (s\<lparr>UserReplicaSetManagerClient := True\<rparr>)
          else initURSMClient_loop env retryTimeoutMs (Suc attempt) (timeout retryTimeoutMs s)
      | InitThrows \<Rightarrow> initURSMClient_loop env retryTimeoutMs (Suc attempt) (timeout retryTimeoutMs s))"

text \<open>The second loop of \<^verbatim>\<open>_registerNodeOnL2URSM\<close>, with \<^verbatim>\<open>retryTimeoutMs = 10000\<close>.\<close>

partial_function (option) registerURSM_loop ::
  "chain_oracle \<Rightarrow> nat \<Rightarrow> registry_state \<Rightarrow> registry_state option" where
  "registerURSM_loop env attempt s =
     (if URSMRegistrationManager_run env attempt then Some (s\<lparr>registeredOnURSM := True\<rparr>)
      else registerURSM_loop env (Suc attempt) (timeout 10000 s))"

definition registerNodeOnL2URSM :: "chain_oracle \<Rightarrow> registry_state \<Rightarrow> registry_state option" where
  "registerNodeOnL2URSM env s =
     (let retryTimeoutMs = (if devMode env then 10000 else 600000)
      in case initURSMClient_loop env retryTimeoutMs 0 s of
           None \<Rightarrow> None
         | Some s1 \<Rightarrow> registerURSM_loop env 0 (s1\<lparr>URSMRegistrationManager := True\<rparr>))"

definition initServicesThatRequireServer :: "chain_oracle \<Rightarrow> registry_state \<Rightarrow> registry_state option" where
  "initServicesThatRequireServer env s =
     (case recoverNodeL1Identity env s of
        None \<Rightarrow> None
      | Some s1 \<Rightarrow>
          (case initSnapbackSM env s1 of
             None \<Rightarrow> None
           | Some s2 \<Rightarrow>
               (case registerNodeOnL2URSM env (s2\<lparr>syncQueue := True\<rparr>) of
                  None \<Rightarrow> None
                | Some s3 \<Rightarrow>
                    Some (s3\<lparr>skippedCIDsRetryQueue := True,
                             servicesThatRequireServerInitialized := True\<rparr>))))"

text \<open>An attempt of \<^verbatim>\<open>_recoverNodeL1Identity\<close> ends the loop when it returns a non-zero id.\<close>

fun resolved :: "sp_response \<Rightarrow> bool" where
  "resolved (SpID n) = (n \<noteq> 0)"
| "resolved SpThrows = False"

section \<open>processSync: the sync executor on a secondary\<close>

text \<open>
  Embedding of \<^verbatim>\<open>creator-node/src/services/sync/processSync.js\<close>. The state threaded
  through the function holds what it reads and writes: the Redis locks, the database
  tables, the in-memory failure counters, the sync history, and the export requests sent.
  The peer, the chain and the disk are oracles collected in \<open>sync_env\<close>. Logging and
  the background call \<^verbatim>\<open>_initBootstrapAndRefreshPeers\<close>, which is not awaited, are left
  out.
\<close>

datatype file_type = Track | Copy320 | Image | Metadata | Dir

text \<open>
  Modelled from the spec: \<^verbatim>\<open>models.File.TrackTypes\<close> is declared in the File model,
  which is not part of the sources at hand. The spec lists the file types as track,
  image, metadata, copy320 and dir, and calls track files the files whose type is a
  track-audio variant.
\<close>

definition TrackTypes :: "file_type list" where
  "TrackTypes = [Track, Copy320]"

text \<open>
  Modelled from the spec: \<^verbatim>\<open>models.File.NonTrackTypes\<close>, declared in the same File model;
  the remaining file types of the spec's list.
\<close>

definition NonTrackTypes :: "file_type list" where
  "NonTrackTypes = [Dir, Image, Metadata]"

record cnode_user =
  walletPublicKey :: string
  cnodeUserUUID :: string
  clock :: int
  latestBlockNumber :: int
  lastLogin :: string
  createdAt :: string

record clock_record =
  cr_cnodeUserUUID :: string
  cr_clock :: int
  sourceTable :: string

record file_row =
  fileUUID :: string
  f_cnodeUserUUID :: string
  multihash :: string
  storagePath :: string
  ftype :: file_type
  trackBlockchainId :: "int option"
  fileName :: "string option"
  skipped :: bool

record track =
  t_cnodeUserUUID :: string
  blockchainId :: int
  metadataFileUUID :: string

record audius_user =
  au_cnodeUserUUID :: string
  au_blockchainId :: int
  au_metadataFileUUID :: string

text \<open>
  One entry of \<^verbatim>\<open>body.data.cnodeUsers\<close>. The wallet is optional because the code tests
  \<^verbatim>\<open>hasOwnProperty('walletPublicKey')\<close>.
\<close>

record fetched_cnode_user =
  fetched_walletPublicKey :: "string option"
  fetched_clock :: int
  fetched_latestBlockNumber :: int
  fetched_lastLogin :: string
  fetched_createdAt :: string
  clockRecords :: "clock_record list"
  files :: "file_row list"
  tracks :: "track list"
  audiusUsers :: "audius_user list"

text \<open>The tables; the user table is looked up by its unique \<^verbatim>\<open>walletPublicKey\<close>.\<close>

record database =
  CNodeUsers :: "string \<rightharpoonup> cnode_user"
  ClockRecords :: "clock_record list"
  Files :: "file_row list"
  Tracks :: "track list"
  AudiusUsers :: "audius_user list"

record export_request =
  baseURL :: string
  wallet_public_key :: "string list"
  clock_range_min :: int
  source_endpoint :: "string option"

text \<open>
  What the \<^verbatim>\<open>/export\<close> request comes back with: the request itself throws, the status
  is not 200, the body lacks \<^verbatim>\<open>cnodeUsers\<close> or \<^verbatim>\<open>ipfsIDObj.addresses\<close>, or a body with
  the values of \<^verbatim>\<open>cnodeUsers\<close> in order.
\<close>

datatype export_response =
    RequestThrew
  | StatusNot200 nat
  | Malformed
  | ExportBody "fetched_cnode_user list"

text \<open>
  A database statement may throw. For the statements inside the transaction of a wallet
  the oracle \<open>db_statements\<close> says whether those that find, update or create the user
  row throw, or one of the bulk inserts or the commit, or none. For the statement that
  precedes the export request (the delete of line 71 under \<^verbatim>\<open>forceResync\<close>, the
  \<^verbatim>\<open>findOne\<close> of line 75 otherwise) the oracle \<open>baselineStatementThrows\<close> says whether
  it throws.
\<close>

datatype db_outcome = DbOk | UserStatementThrows | WriteThrows

record sync_env =
  FileSaveMaxConcurrency :: nat
  SyncRequestMaxUserFailureCountBeforeSkip :: nat
  creatorNodeEndpoint_config :: "string option"
  fetchExport :: "export_request \<Rightarrow> export_response"
  getOwnEndpoint :: "string option"
  getCreatorNodeEndpoints :: "string \<Rightarrow> int option \<Rightarrow> string list option"
  saveFileForMultihashToFS ::
    "string \<Rightarrow> string \<Rightarrow> string list \<Rightarrow> string option \<Rightarrow> int option \<Rightarrow> bool"
  generateUUID :: "string \<Rightarrow> string"
  db_statements :: "string \<Rightarrow> db_outcome"
  baselineStatementThrows :: bool

datatype sync_error =
    SyncInProgress string
  | ExportRequestFailed
  | MalformedResponse
  | MissingWalletPublicKey
  | UnrequestedWallet string
  | ClockRegression int int
  | NonContiguous int int
  | ContentFetchFailed nat nat nat
  | DatabaseError
  | TransactionFailed sync_error

datatype sync_record = SyncSuccess string | SyncFail string

record node_state =
  locks :: "string set"
  db :: database
  failureCounts :: "string \<Rightarrow> nat"
  syncHistory :: "sync_record list"
  exportRequests :: "export_request list"

subsection \<open>Helpers that live outside processSync.js\<close>

text \<open>
  Modelled from the spec: \<^verbatim>\<open>redis.getNodeSyncRedisKey\<close> is not part of the sources at
  hand. The spec gives the lock key as \<^verbatim>\<open>node_sync:{wallet}\<close>.
\<close>

definition getNodeSyncRedisKey :: "string \<Rightarrow> string" where
  "getNodeSyncRedisKey wallet = ''node_sync:'' @ wallet"

text \<open>
  Modelled from the spec: \<^verbatim>\<open>redis.lock.getLock\<close> is not part of the sources at hand. The
  spec describes the lock as a per-user entry of the coordination store; the test is
  whether the key is present.
\<close>

definition getLock :: "string \<Rightarrow> node_state \<Rightarrow> bool" where
  "getLock key s = (key \<in> locks s)"

text \<open>Modelled from the spec: \<^verbatim>\<open>redis.lock.setLock\<close>, of the same absent module, sets the key.\<close>

definition setLock :: "string \<Rightarrow> node_state \<Rightarrow> node_state" where
  "setLock key s = s\<lparr>locks := insert key (locks s)\<rparr>"

text \<open>
  Modelled from the spec: \<^verbatim>\<open>redis.lock.removeLock\<close>, of the same absent module, deletes the
  key. The key is optional because \<^verbatim>\<open>redisKey\<close> is undefined for an empty wallet list;
  deleting an undefined key removes no lock.
\<close>

definition removeLock :: "string option \<Rightarrow> node_state \<Rightarrow> node_state" where
  "removeLock key s = (case key of None \<Rightarrow> s | Some k \<Rightarrow> s\<lparr>locks := locks s - {k}\<rparr>)"

text \<open>
  Modelled from the spec: \<^verbatim>\<open>UserSyncFailureCountManager.incrementFailureCount\<close> is not
  part of the sources at hand. The spec describes a per-user \<^verbatim>\<open>sync_failure_count\<close> that
  is incremented and reset; the call site uses the value returned by the increment as the
  new count.
\<close>

definition incrementFailureCount :: "string \<Rightarrow> node_state \<Rightarrow> nat \<times> node_state" where
  "incrementFailureCount wallet s =
     (Suc (failureCounts s wallet),
      s\<lparr>failureCounts := (failureCounts s)(wallet := Suc (failureCounts s wallet))\<rparr>)"

text \<open>
  Modelled from the spec: \<^verbatim>\<open>UserSyncFailureCountManager.resetFailureCount\<close>, of the same
  absent module, resets the count of the wallet.
\<close>

definition resetFailureCount :: "string \<Rightarrow> node_state \<Rightarrow> node_state" where
  "resetFailureCount wallet s = s\<lparr>failureCounts := (failureCounts s)(wallet := 0)\<rparr>"

text \<open>
  Modelled from the spec: \<^verbatim>\<open>DBManager.deleteAllCNodeUserDataFromDB\<close> is not part of the
  sources at hand. The spec's \<^verbatim>\<open>truncate(user)\<close> deletes all rows for the user, the user
  row included. An undefined wallet (an empty \<^verbatim>\<open>walletPublicKeys\<close>) matches no user.
\<close>

definition deleteAllCNodeUserDataFromDB :: "string option \<Rightarrow> database \<Rightarrow> database" where
  "deleteAllCNodeUserDataFromDB lookupWallet d =
     (case lookupWallet of
        None \<Rightarrow> d
      | Some wallet \<Rightarrow>
          (case CNodeUsers d wallet of
             None \<Rightarrow> d
           | Some u \<Rightarrow>
               \<lparr>CNodeUsers = (CNodeUsers d)(wallet := None),
                ClockRecords = filter (\<lambda>r. cr_cnodeUserUUID r \<noteq> cnodeUserUUID u) (ClockRecords d),
                Files = filter (\<lambda>r. f_cnodeUserUUID r \<noteq> cnodeUserUUID u) (Files d),
                Tracks = filter (\<lambda>r. t_cnodeUserUUID r \<noteq> cnodeUserUUID u) (Tracks d),
                AudiusUsers = filter (\<lambda>r. au_cnodeUserUUID r \<noteq> cnodeUserUUID u) (AudiusUsers d)\<rparr>))"

text \<open>
  Modelled from the spec: \<^verbatim>\<open>SyncHistoryAggregator.recordSyncSuccess\<close> is not part of the
  sources at hand. The spec records the outcome, success or fail, per wallet in the
  sync-history aggregator.
\<close>

definition recordSyncSuccess :: "string \<Rightarrow> node_state \<Rightarrow> node_state" where
  "recordSyncSuccess wallet s = s\<lparr>syncHistory := syncHistory s @ [SyncSuccess wallet]\<rparr>"

text \<open>Modelled from the spec: \<^verbatim>\<open>SyncHistoryAggregator.recordSyncFail\<close>, of the same absent module.\<close>

definition recordSyncFail :: "string \<Rightarrow> node_state \<Rightarrow> node_state" where
  "recordSyncFail wallet s = s\<lparr>syncHistory := syncHistory s @ [SyncFail wallet]\<rparr>"

subsection \<open>Lock acquisition (lines 49 to 61)\<close>

text \<open>
  The loop keeps the last key it computed in \<^verbatim>\<open>redisKey\<close>, which the rest of the
  function reuses. A held lock returns the error at once: the result carries the error,
  the current \<^verbatim>\<open>redisKey\<close> and the state with the locks set so far.
\<close>

fun acquireLocks ::
  "string list \<Rightarrow> string option \<Rightarrow> node_state \<Rightarrow> sync_error option \<times> string option \<times> node_state" where
  "acquireLocks [] redisKey s = (None, redisKey, s)"
| "acquireLocks (wallet # wallets) redisKey s =
     (let key = getNodeSyncRedisKey wallet
      in if getLock key s then (Some (SyncInProgress wallet), Some key, s)
         else acquireLocks wallets (Some key) (setLock key s))"

subsection \<open>Clock baseline and export request (lines 66 to 107)\<close>

text \<open>\<^verbatim>\<open>walletPublicKeys[0]\<close>, undefined for an empty list.\<close>

definition firstWallet :: "string list \<Rightarrow> string option" where
  "firstWallet walletPublicKeys = (case walletPublicKeys of [] \<Rightarrow> None | w # _ \<Rightarrow> Some w)"

definition findCNodeUser :: "string option \<Rightarrow> database \<Rightarrow> cnode_user option" where
  "findCNodeUser lookupWallet d = (case lookupWallet of None \<Rightarrow> None | Some w \<Rightarrow> CNodeUsers d w)"

text \<open>
  Lines 67 to 79: the value of \<^verbatim>\<open>localMaxClockVal\<close> and the state after the statement.
  A statement that throws leaves the try block with the tables as they were (a delete
  that throws is taken to have deleted nothing).
\<close>

definition clockBaseline ::
  "sync_env \<Rightarrow> bool \<Rightarrow> string list \<Rightarrow> node_state \<Rightarrow> sync_error + int \<times> node_state" where
  "clockBaseline env forceResync walletPublicKeys s =
     (let wallet = firstWallet walletPublicKeys
      in if baselineStatementThrows env then Inl DatabaseError
         else if forceResync
         then Inr (- 1, s\<lparr>db := deleteAllCNodeUserDataFromDB wallet (db s)\<rparr>)
         else (case findCNodeUser (firstWallet walletPublicKeys) (db s) of
                 None \<Rightarrow> Inr (- 1, s)
               | Some cnodeUser \<Rightarrow> Inr (clock cnodeUser, s)))"

definition exportQueryParams :: "sync_env \<Rightarrow> string \<Rightarrow> string list \<Rightarrow> int \<Rightarrow> export_request" where
  "exportQueryParams env creatorNodeEndpoint walletPublicKeys localMaxClockVal =
     \<lparr>baseURL = creatorNodeEndpoint,
      wallet_public_key = walletPublicKeys,
      clock_range_min = localMaxClockVal + 1,
      source_endpoint = creatorNodeEndpoint_config env\<rparr>"

subsection \<open>One fetched user (lines 164 to 557)\<close>

text \<open>\<^verbatim>\<open>[...new Set(xs)]\<close>: the first occurrence of each element, in order.\<close>

fun uniq :: "'a list \<Rightarrow> 'a list" where
  "uniq [] = []"
| "uniq (x # xs) = x # filter (\<lambda>y. y \<noteq> x) (uniq xs)"

text \<open>
  The replica set used as content gateways; a failure to get it is caught and leaves the
  empty list.
\<close>

definition userReplicaSet :: "sync_env \<Rightarrow> string \<Rightarrow> int option \<Rightarrow> string list" where
  "userReplicaSet env wallet blockNumber =
     (case getOwnEndpoint env of
        None \<Rightarrow> []
      | Some myCnodeEndpoint \<Rightarrow>
          (case getCreatorNodeEndpoints env wallet blockNumber of
             None \<Rightarrow> []
           | Some endpoints \<Rightarrow> uniq (filter (\<lambda>url. url \<noteq> myCnodeEndpoint) endpoints)))"

text \<open>\<^verbatim>\<open>Set.add\<close> on a set kept as the list of its members in insertion order.\<close>

definition set_add :: "'a \<Rightarrow> 'a list \<Rightarrow> 'a list" where
  "set_add x xs = (if x \<in> set xs then xs else xs @ [x])"

definition saveTrackFile :: "sync_env \<Rightarrow> string list \<Rightarrow> file_row \<Rightarrow> bool" where
  "saveTrackFile env replicaSet trackFile =
     saveFileForMultihashToFS env (multihash trackFile) (storagePath trackFile) replicaSet
       None (trackBlockchainId trackFile)"

text \<open>A directory is not fetched; an image with a file name is fetched under that name.\<close>

definition saveNonTrackFile :: "sync_env \<Rightarrow> string list \<Rightarrow> file_row \<Rightarrow> bool" where
  "saveNonTrackFile env replicaSet nonTrackFile =
     (if ftype nonTrackFile \<noteq> Dir then
        (if ftype nonTrackFile = Image \<and> fileName nonTrackFile \<noteq> None
         then saveFileForMultihashToFS env (multihash nonTrackFile) (storagePath nonTrackFile)
                replicaSet (fileName nonTrackFile) None
         else saveFileForMultihashToFS env (multihash nonTrackFile) (storagePath nonTrackFile)
                replicaSet None None)
      else True)"

text \<open>
  One slice: every file of the slice is saved, and the multihash of each file whose save
  failed is added to \<^verbatim>\<open>CIDsThatFailedSaveFileOp\<close>.
\<close>

fun saveSlice :: "(file_row \<Rightarrow> bool) \<Rightarrow> file_row list \<Rightarrow> string list \<Rightarrow> string list" where
  "saveSlice save [] failed = failed"
| "saveSlice save (f # fs) failed =
     saveSlice save fs (if \<not> save f then set_add (multihash f) failed else failed)"

text \<open>
  \<^verbatim>\<open>for (let i = 0; i < files.length; i += FileSaveMaxConcurrency)\<close>. With a step of 0
  and a file left, the loop never advances: the value is \<open>None\<close>.
\<close>

function saveInBatches ::
  "nat \<Rightarrow> (file_row \<Rightarrow> bool) \<Rightarrow> file_row list \<Rightarrow> nat \<Rightarrow> string list \<Rightarrow> string list option" where
  "saveInBatches n save fs i failed =
     (if i < length fs then
        (if n = 0 then None
         else saveInBatches n save fs (i + n) (saveSlice save (take n (drop i fs)) failed))
      else Some failed)"
  by pat_completeness auto
termination
  by (relation "measure (\<lambda>(n, save, fs, i, failed). length fs - i)") auto

declare saveInBatches.simps [simp del]

definition fetchContent ::
  "sync_env \<Rightarrow> string list \<Rightarrow> file_row list \<Rightarrow> file_row list \<Rightarrow> string list option" where
  "fetchContent env replicaSet trackFiles nonTrackFiles =
     (case saveInBatches (FileSaveMaxConcurrency env) (saveTrackFile env replicaSet) trackFiles 0 [] of
        None \<Rightarrow> None
      | Some failed \<Rightarrow>
          saveInBatches (FileSaveMaxConcurrency env) (saveNonTrackFile env replicaSet)
            nonTrackFiles 0 failed)"

text \<open>The row inserted for a non-track file and for a track file.\<close>

definition nonTrackFileRow :: "string list \<Rightarrow> string \<Rightarrow> file_row \<Rightarrow> file_row" where
  "nonTrackFileRow failed uuid f =
     f\<lparr>skipped := (if multihash f \<in> set failed then True else skipped f),
       trackBlockchainId := None, f_cnodeUserUUID := uuid\<rparr>"

definition trackFileRow :: "string list \<Rightarrow> string \<Rightarrow> file_row \<Rightarrow> file_row" where
  "trackFileRow failed uuid f =
     f\<lparr>skipped := (if multihash f \<in> set failed then True else skipped f),
       f_cnodeUserUUID := uuid\<rparr>"

text \<open>The user row after the update of an existing row, or the created one.\<close>

definition upsertCNodeUser ::
  "sync_env \<Rightarrow> string \<Rightarrow> fetched_cnode_user \<Rightarrow> cnode_user option \<Rightarrow> cnode_user" where
  "upsertCNodeUser env wallet fetched cnodeUserRecord =
     (case cnodeUserRecord of
        Some r \<Rightarrow>
          r\<lparr>lastLogin := fetched_lastLogin fetched,
            latestBlockNumber := fetched_latestBlockNumber fetched,
            clock := fetched_clock fetched,
            createdAt := fetched_createdAt fetched\<rparr>
      | None \<Rightarrow>
          \<lparr>walletPublicKey = wallet, cnodeUserUUID = generateUUID env wallet,
           clock = fetched_clock fetched,
           latestBlockNumber = fetched_latestBlockNumber fetched,
           lastLogin = fetched_lastLogin fetched,
           createdAt = fetched_createdAt fetched\<rparr>)"

text \<open>The tables at commit: the user row and the five bulk inserts, in the code's order.\<close>

definition writeRecords ::
  "string \<Rightarrow> cnode_user \<Rightarrow> fetched_cnode_user \<Rightarrow> file_row list \<Rightarrow> file_row list \<Rightarrow> string list
     \<Rightarrow> database \<Rightarrow> database" where
  "writeRecords wallet cnodeUser fetched trackFiles nonTrackFiles failed d =
     (let uuid = cnodeUserUUID cnodeUser
      in \<lparr>CNodeUsers = (CNodeUsers d)(wallet \<mapsto> cnodeUser),
          ClockRecords = ClockRecords d @ map (\<lambda>r. r\<lparr>cr_cnodeUserUUID := uuid\<rparr>) (clockRecords fetched),
          Files = Files d @ map (nonTrackFileRow failed uuid) nonTrackFiles
                        @ map (trackFileRow failed uuid) trackFiles,
          Tracks = Tracks d @ map (\<lambda>t. t\<lparr>t_cnodeUserUUID := uuid\<rparr>) (tracks fetched),
          AudiusUsers = AudiusUsers d @ map (\<lambda>a. a\<lparr>au_cnodeUserUUID := uuid\<rparr>) (audiusUsers fetched)\<rparr>)"

text \<open>
  The inner \<^verbatim>\<open>catch\<close>: the transaction is rolled back, so the tables stay as they were,
  the lock under \<^verbatim>\<open>redisKey\<close> is removed and the error is rethrown wrapped.
\<close>

definition rollback :: "string option \<Rightarrow> sync_error \<Rightarrow> node_state \<Rightarrow> sync_error option \<times> node_state" where
  "rollback redisKey e s = (Some (TransactionFailed e), removeLock redisKey s)"

definition commit ::
  "string option \<Rightarrow> string \<Rightarrow> database \<Rightarrow> node_state \<Rightarrow> sync_error option \<times> node_state" where
  "commit redisKey wallet d s = (None, recordSyncSuccess wallet (removeLock redisKey (s\<lparr>db := d\<rparr>)))"

text \<open>The bulk inserts and the commit, reached once the failure gate lets the sync continue.\<close>

definition writeAndCommit ::
  "sync_env \<Rightarrow> string option \<Rightarrow> string \<Rightarrow> cnode_user \<Rightarrow> fetched_cnode_user \<Rightarrow> file_row list
     \<Rightarrow> file_row list \<Rightarrow> string list \<Rightarrow> node_state \<Rightarrow> sync_error option \<times> node_state" where
  "writeAndCommit env redisKey wallet cnodeUser fetched trackFiles nonTrackFiles failed s =
     (if db_statements env wallet = WriteThrows then rollback redisKey DatabaseError s
      else commit redisKey wallet
             (writeRecords wallet cnodeUser fetched trackFiles nonTrackFiles failed (db s)) s)"

text \<open>The transaction of one user (lines 243 to 556). A batch loop that never ends gives \<open>None\<close>.\<close>

definition userTransaction ::
  "sync_env \<Rightarrow> string option \<Rightarrow> string \<Rightarrow> string list \<Rightarrow> fetched_cnode_user \<Rightarrow> node_state
     \<Rightarrow> (sync_error option \<times> node_state) option" where
  "userTransaction env redisKey wallet replicaSet fetched s =
     (if db_statements env wallet = UserStatementThrows then Some (rollback redisKey DatabaseError s)
      else
        (let cnodeUser = upsertCNodeUser env wallet fetched (CNodeUsers (db s) wallet);
             trackFiles = filter (\<lambda>f. ftype f \<in> set TrackTypes) (files fetched);
             nonTrackFiles = filter (\<lambda>f. ftype f \<in> set NonTrackTypes) (files fetched)
         in case fetchContent env replicaSet trackFiles nonTrackFiles of
              None \<Rightarrow> None
            | Some CIDsThatFailedSaveFileOp \<Rightarrow>
                (let numCIDsThatFailedSaveFileOp = length CIDsThatFailedSaveFileOp
                 in if numCIDsThatFailedSaveFileOp > 0 then
                      (let (userSyncFailureCount, s1) = incrementFailureCount wallet s
                       in if userSyncFailureCount < SyncRequestMaxUserFailureCountBeforeSkip env
                          then Some (rollback redisKey
                                 (ContentFetchFailed numCIDsThatFailedSaveFileOp userSyncFailureCount
                                    (SyncRequestMaxUserFailureCountBeforeSkip env)) s1)
                          else Some (writeAndCommit env redisKey wallet cnodeUser fetched trackFiles
                                 nonTrackFiles CIDsThatFailedSaveFileOp
                                 (resetFailureCount wallet s1)))
                    else Some (writeAndCommit env redisKey wallet cnodeUser fetched trackFiles
                           nonTrackFiles CIDsThatFailedSaveFileOp
                           (resetFailureCount wallet s)))))"

text \<open>
  The body of the loop over the fetched users: the checks on the wallet, the clock
  comparison, then the transaction.
\<close>

definition syncUser ::
  "sync_env \<Rightarrow> string list \<Rightarrow> int option \<Rightarrow> int \<Rightarrow> string option \<Rightarrow> fetched_cnode_user
     \<Rightarrow> node_state \<Rightarrow> (sync_error option \<times> node_state) option" where
  "syncUser env walletPublicKeys blockNumber localMaxClockVal redisKey fetchedCNodeUser s =
     (case fetched_walletPublicKey fetchedCNodeUser of
        None \<Rightarrow> Some (Some MissingWalletPublicKey, s)
      | Some fetchedWalletPublicKey \<Rightarrow>
          (let replicaSet = userReplicaSet env fetchedWalletPublicKey blockNumber;
               fetchedLatestClockVal = fetched_clock fetchedCNodeUser;
               fetchedClockRecords = clockRecords fetchedCNodeUser
           in if fetchedWalletPublicKey \<notin> set walletPublicKeys
              then Some (Some (UnrequestedWallet fetchedWalletPublicKey), s)
              else if fetchedLatestClockVal < localMaxClockVal
              then Some (Some (ClockRegression localMaxClockVal fetchedLatestClockVal), s)
              else if fetchedLatestClockVal = localMaxClockVal
              then Some (None, s)
              else if localMaxClockVal \<noteq> - 1 \<and> fetchedClockRecords \<noteq> []
                      \<and> cr_clock (hd fetchedClockRecords) \<noteq> localMaxClockVal + 1
              then Some (Some (NonContiguous localMaxClockVal (cr_clock (hd fetchedClockRecords))), s)
              else userTransaction env redisKey fetchedWalletPublicKey replicaSet fetchedCNodeUser s))"

fun syncUsers ::
  "sync_env \<Rightarrow> string list \<Rightarrow> int option \<Rightarrow> int \<Rightarrow> string option \<Rightarrow> fetched_cnode_user list
     \<Rightarrow> node_state \<Rightarrow> (sync_error option \<times> node_state) option" where
  "syncUsers env walletPublicKeys blockNumber localMaxClockVal redisKey [] s = Some (None, s)"
| "syncUsers env walletPublicKeys blockNumber localMaxClockVal redisKey (u # us) s =
     (case syncUser env walletPublicKeys blockNumber localMaxClockVal redisKey u s of
        None \<Rightarrow> None
      | Some (Some e, s') \<Rightarrow> Some (Some e, s')
      | Some (None, s') \<Rightarrow> syncUsers env walletPublicKeys blockNumber localMaxClockVal redisKey us s')"

subsection \<open>The whole function\<close>

text \<open>
  Lines 109 to 557: what the try block does with the answer to the export request. An
  answer that is not a well-formed body throws; a body is handed to the loop over its
  users.
\<close>

definition handleExport ::
  "sync_env \<Rightarrow> string list \<Rightarrow> int option \<Rightarrow> int \<Rightarrow> string option \<Rightarrow> export_response
     \<Rightarrow> node_state \<Rightarrow> (sync_error option \<times> node_state) option" where
  "handleExport env walletPublicKeys blockNumber localMaxClockVal redisKey exportResp s =
     (case exportResp of
        RequestThrew \<Rightarrow> Some (Some ExportRequestFailed, s)
      | StatusNot200 code \<Rightarrow> Some (Some ExportRequestFailed, s)
      | Malformed \<Rightarrow> Some (Some MalformedResponse, s)
      | ExportBody users \<Rightarrow>
          syncUsers env walletPublicKeys blockNumber localMaxClockVal redisKey users s)"

text \<open>
  The \<^verbatim>\<open>try\<close> block (lines 66 to 557): the baseline, the export request, and the
  handling of its answer. A baseline statement that throws ends the block before any
  request is sent.
\<close>

definition syncBody ::
  "sync_env \<Rightarrow> string list \<Rightarrow> string \<Rightarrow> int option \<Rightarrow> bool \<Rightarrow> string option \<Rightarrow> node_state
     \<Rightarrow> (sync_error option \<times> node_state) option" where
  "syncBody env walletPublicKeys creatorNodeEndpoint blockNumber forceResync redisKey s =
     (case clockBaseline env forceResync walletPublicKeys s of
        Inl e \<Rightarrow> Some (Some e, s)
      | Inr (localMaxClockVal, s1) \<Rightarrow>
          (let request = exportQueryParams env creatorNodeEndpoint walletPublicKeys localMaxClockVal;
               s2 = s1\<lparr>exportRequests := exportRequests s1 @ [request]\<rparr>
           in handleExport env walletPublicKeys blockNumber localMaxClockVal redisKey
                (fetchExport env request) s2))"

definition recordSyncFails :: "string list \<Rightarrow> node_state \<Rightarrow> node_state" where
  "recordSyncFails walletPublicKeys s = foldl (\<lambda>s w. recordSyncFail w s) s walletPublicKeys"

definition releaseLocks :: "string list \<Rightarrow> node_state \<Rightarrow> node_state" where
  "releaseLocks walletPublicKeys s =
     foldl (\<lambda>s w. removeLock (Some (getNodeSyncRedisKey w)) s) s walletPublicKeys"

text \<open>
  The \<^verbatim>\<open>catch\<close> and \<^verbatim>\<open>finally\<close> blocks (lines 558 to 569), applied to the outcome of
  the try block: a failure is recorded for every wallet when the block threw, and the lock
  of every wallet is removed.
\<close>

definition catchFinally ::
  "string list \<Rightarrow> (sync_error option \<times> node_state) option
     \<Rightarrow> (sync_error option \<times> node_state) option" where
  "catchFinally walletPublicKeys outcome =
     (case outcome of
        None \<Rightarrow> None
      | Some (errorObj, s2) \<Rightarrow>
          (let s3 = (case errorObj of
                       Some e \<Rightarrow> recordSyncFails walletPublicKeys s2
                     | None \<Rightarrow> s2)
           in Some (errorObj, releaseLocks walletPublicKeys s3)))"

text \<open>
  \<^verbatim>\<open>processSync(serviceRegistry, walletPublicKeys, creatorNodeEndpoint, blockNumber,
  forceResync)\<close> returns \<^verbatim>\<open>errorObj\<close>: \<open>None\<close> for \<^verbatim>\<open>null\<close>. The outer \<open>option\<close> is
  \<open>None\<close> when the call never returns.
\<close>

definition processSync ::
  "sync_env \<Rightarrow> string list \<Rightarrow> string \<Rightarrow> int option \<Rightarrow> bool \<Rightarrow> node_state
     \<Rightarrow> (sync_error option \<times> node_state) option" where
  "processSync env walletPublicKeys creatorNodeEndpoint blockNumber forceResync s =
     (case acquireLocks walletPublicKeys None s of
        (Some errorObj, redisKey, s1) \<Rightarrow> Some (Some errorObj, s1)
      | (None, redisKey, s1) \<Rightarrow>
          catchFinally walletPublicKeys
            (syncBody env walletPublicKeys creatorNodeEndpoint blockNumber forceResync redisKey s1))"

subsection \<open>A concrete secondary, primary and export\<close>

text \<open>
  The inputs used to run the functions above: a secondary that holds wallet
  \<^verbatim>\<open>0xAA\<close> at clock 3, and a primary whose export for that wallet has a given clock,
  clock records and files. The peers fail to deliver the two contents \<^verbatim>\<open>QmC\<close> and
  \<^verbatim>\<open>QmH\<close>.
\<close>

definition example_file :: "string \<Rightarrow> file_type \<Rightarrow> file_row" where
  "example_file cid t =
     \<lparr>fileUUID = ''file-'' @ cid, f_cnodeUserUUID = ''uuid-on-primary'', multihash = cid,
      storagePath = ''/file_storage/'' @ cid, ftype = t,
      trackBlockchainId = (if t = Track \<or> t = Copy320 then Some 1 else None),
      fileName = None, skipped = False\<rparr>"

definition example_files :: "file_row list" where
  "example_files =
     [example_file ''QmA'' Metadata, example_file ''QmB'' Track, example_file ''QmC'' Track,
      example_file ''QmD'' Track, example_file ''QmE'' Copy320, example_file ''QmF'' Dir,
      example_file ''QmG'' Image, example_file ''QmH'' Metadata, example_file ''QmI'' Image,
      example_file ''QmJ'' Metadata]"

definition example_clock_record :: "int \<Rightarrow> clock_record" where
  "example_clock_record c =
     \<lparr>cr_cnodeUserUUID = ''uuid-on-primary'', cr_clock = c, sourceTable = ''File''\<rparr>"

definition example_fetched :: "int \<Rightarrow> clock_record list \<Rightarrow> file_row list \<Rightarrow> fetched_cnode_user" where
  "example_fetched c crs fs =
     \<lparr>fetched_walletPublicKey = Some ''0xAA'', fetched_clock = c, fetched_latestBlockNumber = 100,
      fetched_lastLogin = ''2022-01-02'', fetched_createdAt = ''2022-01-01'',
      clockRecords = crs, files = fs, tracks = [], audiusUsers = []\<rparr>"

definition example_save :: "string \<Rightarrow> string \<Rightarrow> string list \<Rightarrow> string option \<Rightarrow> int option \<Rightarrow> bool" where
  "example_save cid path replicaSet name trackId = (cid \<noteq> ''QmC'' \<and> cid \<noteq> ''QmH'')"

definition example_replica_set :: "string \<Rightarrow> int option \<Rightarrow> string list option" where
  "example_replica_set wallet blockNumber =
     Some [''https://primary'', ''https://secondary1'', ''https://secondary2'']"

definition example_uuid :: "string \<Rightarrow> string" where
  "example_uuid wallet = ''uuid-new-'' @ wallet"

definition example_db_ok :: "string \<Rightarrow> db_outcome" where
  "example_db_ok wallet = DbOk"

definition example_env :: "fetched_cnode_user list \<Rightarrow> sync_env" where
  "example_env users =
     \<lparr>FileSaveMaxConcurrency = 10, SyncRequestMaxUserFailureCountBeforeSkip = 3,
      creatorNodeEndpoint_config = Some ''https://secondary1'',
      fetchExport = (\<lambda>request. ExportBody users),
      getOwnEndpoint = Some ''https://secondary1'',
      getCreatorNodeEndpoints = example_replica_set,
      saveFileForMultihashToFS = example_save,
      generateUUID = example_uuid,
      db_statements = example_db_ok,
      baselineStatementThrows = False\<rparr>"

definition example_user :: cnode_user where
  "example_user =
     \<lparr>walletPublicKey = ''0xAA'', cnodeUserUUID = ''uuid-on-secondary'', clock = 3,
      latestBlockNumber = 90, lastLogin = ''2021-12-31'', createdAt = ''2021-12-30''\<rparr>"

definition example_db :: database where
  "example_db =
     \<lparr>CNodeUsers = [''0xAA'' \<mapsto> example_user],
      ClockRecords = [], Files = [], Tracks = [], AudiusUsers = []\<rparr>"

definition example_state :: "string set \<Rightarrow> node_state" where
  "example_state held =
     \<lparr>locks = held, db = example_db, failureCounts = (\<lambda>wallet. 0), syncHistory = [],
      exportRequests = []\<rparr>"

text \<open>Reading a result: the returned error, and a user's clock in the returned state.\<close>

definition returned_error :: "(sync_error option \<times> node_state) option \<Rightarrow> sync_error option option" where
  "returned_error r = map_option fst r"

definition returned_state :: "(sync_error option \<times> node_state) option \<Rightarrow> node_state option" where
  "returned_state r = map_option snd r"

definition user_clock :: "string \<Rightarrow> node_state \<Rightarrow> int option" where
  "user_clock wallet s = map_option clock (CNodeUsers (db s) wallet)"

text \<open>The save operation that the code applies to a file, by the partition it falls in.\<close>

definition saved :: "sync_env \<Rightarrow> string list \<Rightarrow> file_row \<Rightarrow> bool" where
  "saved env replicaSet f =
     (if ftype f \<in> set TrackTypes then saveTrackFile env replicaSet f
      else saveNonTrackFile env replicaSet f)"

text \<open>The value of \<^verbatim>\<open>redisKey\<close> after the acquisition loop has run over the whole list.\<close>

definition lastRedisKey :: "string list \<Rightarrow> string option" where
  "lastRedisKey walletPublicKeys =
     (if walletPublicKeys = [] then None else Some (getNodeSyncRedisKey (last walletPublicKeys)))"

text \<open>
  One attempt of the sync whose export holds the ten files, with the records for the
  clocks 4 and 5.
\<close>

definition example_attempt :: "node_state \<Rightarrow> (sync_error option \<times> node_state) option" where
  "example_attempt s =
     processSync
       (example_env [example_fetched 5 [example_clock_record 4, example_clock_record 5] example_files])
       [''0xAA''] ''https://primary'' None False s"

text \<open>
  A second wallet. The secondary below holds \<^verbatim>\<open>0xAA\<close> at clock 3 and \<^verbatim>\<open>0xBB\<close> at
  clock 10, with one clock record and one file for each.
\<close>

definition example_fetched_for ::
  "string \<Rightarrow> int \<Rightarrow> clock_record list \<Rightarrow> file_row list \<Rightarrow> fetched_cnode_user" where
  "example_fetched_for wallet c crs fs =
     \<lparr>fetched_walletPublicKey = Some wallet, fetched_clock = c, fetched_latestBlockNumber = 100,
      fetched_lastLogin = ''2022-01-02'', fetched_createdAt = ''2022-01-01'',
      clockRecords = crs, files = fs, tracks = [], audiusUsers = []\<rparr>"

definition example_user_BB :: cnode_user where
  "example_user_BB =
     \<lparr>walletPublicKey = ''0xBB'', cnodeUserUUID = ''uuid-BB-on-secondary'', clock = 10,
      latestBlockNumber = 95, lastLogin = ''2021-12-31'', createdAt = ''2021-12-30''\<rparr>"

definition example_db_two :: database where
  "example_db_two =
     \<lparr>CNodeUsers = [''0xAA'' \<mapsto> example_user, ''0xBB'' \<mapsto> example_user_BB],
      ClockRecords =
        [\<lparr>cr_cnodeUserUUID = ''uuid-on-secondary'', cr_clock = 3, sourceTable = ''File''\<rparr>,
         \<lparr>cr_cnodeUserUUID = ''uuid-BB-on-secondary'', cr_clock = 10, sourceTable = ''File''\<rparr>],
      Files =
        [(example_file ''QmX'' Metadata)\<lparr>f_cnodeUserUUID := ''uuid-on-secondary''\<rparr>,
         (example_file ''QmY'' Metadata)\<lparr>f_cnodeUserUUID := ''uuid-BB-on-secondary''\<rparr>],
      Tracks = [], AudiusUsers = []\<rparr>"

definition example_state_two :: node_state where
  "example_state_two =
     \<lparr>locks = {}, db = example_db_two, failureCounts = (\<lambda>wallet. 0), syncHistory = [],
      exportRequests = []\<rparr>"

text \<open>The same peers with a database whose bulk inserts throw, and with a failing baseline statement.\<close>

definition example_db_write_throws :: "string \<Rightarrow> db_outcome" where
  "example_db_write_throws wallet = WriteThrows"

definition example_env_write_throws :: "fetched_cnode_user list \<Rightarrow> sync_env" where
  "example_env_write_throws users = (example_env users)\<lparr>db_statements := example_db_write_throws\<rparr>"

definition example_env_baseline_throws :: "fetched_cnode_user list \<Rightarrow> sync_env" where
  "example_env_baseline_throws users = (example_env users)\<lparr>baselineStatementThrows := True\<rparr>"

definition example_counts_two :: "string \<Rightarrow> nat" where
  "example_counts_two wallet = 2"

subsection \<open>A user that the loop reaches\<close>

text \<open>
  The loop of a call reaches the user \<open>u\<close> of the export in the state \<open>t\<close>, with
  \<open>local\<close> as \<^verbatim>\<open>localMaxClockVal\<close>: the wallets are distinct and their locks free, the
  baseline statement gives \<open>local\<close>, the export answers with the users \<open>pre @ u # post\<close>,
  and the users of \<open>pre\<close> are processed without error, leaving \<open>t\<close>.
\<close>

definition reaches ::
  "sync_env \<Rightarrow> string list \<Rightarrow> string \<Rightarrow> int option \<Rightarrow> bool \<Rightarrow> node_state
     \<Rightarrow> fetched_cnode_user list \<Rightarrow> fetched_cnode_user \<Rightarrow> fetched_cnode_user list
     \<Rightarrow> int \<Rightarrow> node_state \<Rightarrow> bool" where
  "reaches env ws ep bn force s pre u post local t =
     (distinct ws \<and> (\<forall>v\<in>set ws. getNodeSyncRedisKey v \<notin> locks s) \<and>
      (case clockBaseline env force ws s of
         Inl e \<Rightarrow> False
       | Inr (l, s0) \<Rightarrow>
           l = local \<and>
           fetchExport env (exportQueryParams env ep ws local) = ExportBody (pre @ u # post) \<and>
           syncUsers env ws bn local (lastRedisKey ws) pre
             (s0\<lparr>locks := locks s \<union> getNodeSyncRedisKey ` set ws,
                 exportRequests := exportRequests s @ [exportQueryParams env ep ws local]\<rparr>)
             = Some (None, t)))"

section \<open>Properties of the job status records\<close>

text \<open>
  C6. For a job run through \<^verbatim>\<open>monitorProgress\<close> with task label \<open>task\<close> and request id
  \<open>requestID\<close>, the status record lives under the key \<open>task:::requestID\<close> with a
  time to live of 86400 seconds. The wrapper writes IN_PROGRESS, then calls the handler,
  then writes DONE with the response when the handler returns, or FAILED with the error
  message when it throws; these are its only effects and the last write is what the
  store holds. When the handler throws, the registered processor catches the rethrown
  exception and completes the job through \<^verbatim>\<open>done(e.toString())\<close>: its result is
  \<open>DoneErr\<close>, never \<open>Rejected\<close>.
\<close>

theorem monitorProgress_status_record:
  "constructProcessKey task (requestID (logContext p)) = task @ '':::'' @ requestID (logContext p) \<and>
   EXPIRATION = 86400 \<and>
   (case func (logContext p) (req p) of
      Inr r \<Rightarrow>
        fst (monitorProgress task func p s) = Inr r \<and>
        effects (snd (monitorProgress task func p s)) =
          effects s @
            [RedisSet (task @ '':::'' @ requestID (logContext p))
               \<lparr>status = IN_PROGRESS, resp = None\<rparr> 86400,
             Invoke (logContext p),
             RedisSet (task @ '':::'' @ requestID (logContext p))
               \<lparr>status = DONE, resp = Some (Response r)\<rparr> 86400] \<and>
        store (snd (monitorProgress task func p s)) (task @ '':::'' @ requestID (logContext p)) =
          Some (\<lparr>status = DONE, resp = Some (Response r)\<rparr>, 86400)
    | Inl e \<Rightarrow>
        fst (monitorProgress task func p s) = Inl e \<and>
        effects (snd (monitorProgress task func p s)) =
          effects s @
            [RedisSet (task @ '':::'' @ requestID (logContext p))
               \<lparr>status = IN_PROGRESS, resp = None\<rparr> 86400,
             Invoke (logContext p),
             RedisSet (task @ '':::'' @ requestID (logContext p))
               \<lparr>status = FAILED, resp = Some (Message (message e))\<rparr> 86400] \<and>
        store (snd (monitorProgress task func p s)) (task @ '':::'' @ requestID (logContext p)) =
          Some (\<lparr>status = FAILED, resp = Some (Message (message e))\<rparr>, 86400)) \<and>
   fst (processor_trackContentUpload fns \<lparr>trackContentUploadParams = Some p\<rparr> s) =
     (case trackContentUpload_fn fns (logContext p) (req p) of
        Inr r \<Rightarrow> DoneOk r
      | Inl e \<Rightarrow> DoneErr (toString e))"
  by (simp add: constructProcessKey_def EXPIRATION_def monitorProgress_def
      redis_set_def invoke_def processor_trackContentUpload_def Let_def split: sum.split)

text \<open>
  C7. The processor registered under the task name \<^verbatim>\<open>transcodeAndSegment\<close> and the one
  registered under \<^verbatim>\<open>trackContentUpload\<close> compute the same result and the same store
  for every job payload: both run the imported function \<^verbatim>\<open>trackContentUpload\<close> through
  \<^verbatim>\<open>monitorProgress\<close> under the task label \<^verbatim>\<open>trackContentUpload\<close>; the imported function
  \<^verbatim>\<open>transcodeAndSegment\<close> is not called.
\<close>

theorem transcodeAndSegment_runs_trackContentUpload:
  "\<exists>h1 h2.
     processor_for fns ''transcodeAndSegment'' = Some h1 \<and>
     processor_for fns ''trackContentUpload'' = Some h2 \<and>
     (\<forall>job s. h1 job s = h2 job s) \<and>
     (\<forall>p s. h1 \<lparr>trackContentUploadParams = Some p\<rparr> s =
        (case monitorProgress ''trackContentUpload'' (trackContentUpload_fn fns) p s of
           (Inr r, s') \<Rightarrow> (DoneOk r, s')
         | (Inl e, s') \<Rightarrow> (DoneErr (toString e), s')))"
  by (simp add: processor_for_def registered_processors_def
      processor_transcodeAndSegment_def processor_trackContentUpload_def)

section \<open>Properties of findCIDInNetwork\<close>

text \<open>
  C5. The single registered node answers the lookup for \<^verbatim>\<open>/file_storage/QmGood\<close> with the
  bytes \<^verbatim>\<open>bad\<close>, whose hash is \<^verbatim>\<open>QmBad\<close> and not the expected \<^verbatim>\<open>QmGood\<close>. The function
  removes the file it wrote and still returns \<^verbatim>\<open>true\<close>: no file is left at the path.
\<close>

theorem findCIDInNetwork_true_on_hash_mismatch:
  "example_multihash ''bad'' \<noteq> ''QmGood'' \<and>
   findCIDInNetwork example_network ''/file_storage/QmGood'' ''QmGood'' None []
     \<lparr>disk = Map.empty, attempted_fs_fixes = {}\<rparr>
   = (Some True,
      \<lparr>disk = Map.empty, attempted_fs_fixes = {''/file_storage/QmGood''}\<rparr>)"
  by (simp add: findCIDInNetwork_def getIfAttemptedStateFix_def writeStreamToFileSystem_def
      generateNonImageMultihash_def unlink_def example_network_def example_lookup_def
      example_multihash_def)

section \<open>Properties of the identity bootstrap\<close>

subsection \<open>The recovery loop\<close>

lemma recover_loop_retry:
  "\<not> resolved (getServiceProviderIdFromEndpoint env i) \<Longrightarrow>
   recoverNodeL1Identity_loop env i s = recoverNodeL1Identity_loop env (Suc i) (timeout 5000 s)"
  by (subst recoverNodeL1Identity_loop.simps)
     (cases "getServiceProviderIdFromEndpoint env i"; simp)

lemma recover_loop_done:
  "getServiceProviderIdFromEndpoint env i = SpID n \<Longrightarrow> n \<noteq> 0 \<Longrightarrow>
   recoverNodeL1Identity_loop env i s = Some (s\<lparr>spID := Some n\<rparr>)"
  by (subst recoverNodeL1Identity_loop.simps) simp

lemma recover_loop_run:
  "(\<forall>j<d. \<not> resolved (getServiceProviderIdFromEndpoint env (i + j))) \<Longrightarrow>
   recoverNodeL1Identity_loop env i s =
     recoverNodeL1Identity_loop env (i + d) (s\<lparr>timeouts := timeouts s @ replicate d 5000\<rparr>)"
proof (induction d arbitrary: i s)
  case 0
  then show ?case by simp
next
  case (Suc d)
  have first: "\<not> resolved (getServiceProviderIdFromEndpoint env i)"
    using Suc.prems by (metis add.right_neutral zero_less_Suc)
  have rest: "\<forall>j<d. \<not> resolved (getServiceProviderIdFromEndpoint env (Suc i + j))"
    using Suc.prems by (metis Suc_less_eq add_Suc_shift)
  have "timeout 5000 s\<lparr>timeouts := timeouts (timeout 5000 s) @ replicate d 5000\<rparr>
          = s\<lparr>timeouts := timeouts s @ replicate (Suc d) 5000\<rparr>"
    by (simp add: timeout_def replicate_app_Cons_same)
  then show ?case
    using Suc.IH [OF rest, of "timeout 5000 s"] by (simp add: recover_loop_retry [OF first])
qed

lemma recover_loop_Some:
  assumes "recoverNodeL1Identity_loop env i s = Some s'"
  shows "\<exists>k\<ge>i. resolved (getServiceProviderIdFromEndpoint env k)"
proof (rule recoverNodeL1Identity_loop.raw_induct
    [where P = "\<lambda>env i s s'. \<exists>k\<ge>i. resolved (getServiceProviderIdFromEndpoint env k)", OF _ assms])
  fix rl env i s s'
  assume IH: "\<And>env i s s'. rl env i s = Some s' \<Longrightarrow>
                 \<exists>k\<ge>i. resolved (getServiceProviderIdFromEndpoint env k)"
    and body: "(case getServiceProviderIdFromEndpoint env i of
        SpThrows \<Rightarrow> rl env (Suc i) (timeout 5000 s)
      | SpID n \<Rightarrow>
          if n \<noteq> 0 then Some (s\<lparr>spID := Some n\<rparr>)
          else rl env (Suc i) (timeout 5000 s)) = Some s'"
  show "\<exists>k\<ge>i. resolved (getServiceProviderIdFromEndpoint env k)"
  proof (cases "resolved (getServiceProviderIdFromEndpoint env i)")
    case True
    then show ?thesis by blast
  next
    case False
    then have "rl env (Suc i) (timeout 5000 s) = Some s'"
      using body by (cases "getServiceProviderIdFromEndpoint env i") (auto split: if_splits)
    from IH [OF this] show ?thesis using Suc_leD by blast
  qed
qed

lemma recover_never:
  "(\<forall>k. \<not> resolved (getServiceProviderIdFromEndpoint env k)) \<Longrightarrow> recoverNodeL1Identity env s = None"
  unfolding recoverNodeL1Identity_def
  by (cases "recoverNodeL1Identity_loop env 0 s") (auto dest: recover_loop_Some)

lemma recover_first:
  assumes "getServiceProviderIdFromEndpoint env k = SpID n" "n \<noteq> 0"
    and "\<forall>j<k. \<not> resolved (getServiceProviderIdFromEndpoint env j)"
  shows "recoverNodeL1Identity env s =
           Some (s\<lparr>timeouts := timeouts s @ replicate k 5000, spID := Some n\<rparr>)"
  unfolding recoverNodeL1Identity_def
  using recover_loop_run [of k env 0 s] assms
  by (simp add: recover_loop_done)

subsection \<open>The two loops of the registration\<close>

lemma initURSMClient_loop_retry:
  "initUserReplicaSetManagerClient env i \<noteq> InitReturns True \<Longrightarrow>
   initURSMClient_loop env ms i s = initURSMClient_loop env ms (Suc i) (timeout ms s)"
  by (subst initURSMClient_loop.simps)
     (cases "initUserReplicaSetManagerClient env i"; simp)

lemma initURSMClient_loop_done:
  "initUserReplicaSetManagerClient env i = InitReturns True \<Longrightarrow>
   initURSMClient_loop env ms i s = Some (s\<lparr>UserReplicaSetManagerClient := True\<rparr>)"
  by (subst initURSMClient_loop.simps) simp

lemma initURSMClient_loop_run:
  "(\<forall>j<d. initUserReplicaSetManagerClient env (i + j) \<noteq> InitReturns True) \<Longrightarrow>
   initURSMClient_loop env ms i s =
     initURSMClient_loop env ms (i + d) (s\<lparr>timeouts := timeouts s @ replicate d ms\<rparr>)"
proof (induction d arbitrary: i s)
  case 0
  then show ?case by simp
next
  case (Suc d)
  have first: "initUserReplicaSetManagerClient env i \<noteq> InitReturns True"
    using Suc.prems by (metis add.right_neutral zero_less_Suc)
  have rest: "\<forall>j<d. initUserReplicaSetManagerClient env (Suc i + j) \<noteq> InitReturns True"
    using Suc.prems by (metis Suc_less_eq add_Suc_shift)
  have "timeout ms s\<lparr>timeouts := timeouts (timeout ms s) @ replicate d ms\<rparr>
          = s\<lparr>timeouts := timeouts s @ replicate (Suc d) ms\<rparr>"
    by (simp add: timeout_def replicate_app_Cons_same)
  then show ?case
    using Suc.IH [OF rest, of "timeout ms s"] by (simp add: initURSMClient_loop_retry [OF first])
qed

lemma initURSMClient_loop_Some:
  assumes "initURSMClient_loop env ms i s = Some s'"
  shows "\<exists>k\<ge>i. initUserReplicaSetManagerClient env k = InitReturns True"
proof (rule initURSMClient_loop.raw_induct
    [where P = "\<lambda>env ms i s s'. \<exists>k\<ge>i. initUserReplicaSetManagerClient env k = InitReturns True",
     OF _ assms])
  fix rl env ms i s s'
  assume IH: "\<And>env ms i s s'. rl env ms i s = Some s' \<Longrightarrow>
                 \<exists>k\<ge>i. initUserReplicaSetManagerClient env k = InitReturns True"
    and body: "(case initUserReplicaSetManagerClient env i of
        InitThrows \<Rightarrow> rl env ms (Suc i) (timeout ms s)
      | InitReturns present \<Rightarrow>
          if present then Some (s\<lparr>UserReplicaSetManagerClient := True\<rparr>)
          else rl env ms (Suc i) (timeout ms s)) = Some s'"
  show "\<exists>k\<ge>i. initUserReplicaSetManagerClient env k = InitReturns True"
  proof (cases "initUserReplicaSetManagerClient env i = InitReturns True")
    case True
    then show ?thesis by blast
  next
    case False
    then have "rl env ms (Suc i) (timeout ms s) = Some s'"
      using body by (cases "initUserReplicaSetManagerClient env i") (auto split: if_splits)
    from IH [OF this] show ?thesis using Suc_leD by blast
  qed
qed

lemma registerURSM_loop_retry:
  "\<not> URSMRegistrationManager_run env i \<Longrightarrow>
   registerURSM_loop env i s = registerURSM_loop env (Suc i) (timeout 10000 s)"
  by (subst registerURSM_loop.simps) simp

lemma registerURSM_loop_done:
  "URSMRegistrationManager_run env i \<Longrightarrow>
   registerURSM_loop env i s = Some (s\<lparr>registeredOnURSM := True\<rparr>)"
  by (subst registerURSM_loop.simps) simp

lemma registerURSM_loop_run:
  "(\<forall>j<d. \<not> URSMRegistrationManager_run env (i + j)) \<Longrightarrow>
   registerURSM_loop env i s =
     registerURSM_loop env (i + d) (s\<lparr>timeouts := timeouts s @ replicate d 10000\<rparr>)"
proof (induction d arbitrary: i s)
  case 0
  then show ?case by simp
next
  case (Suc d)
  have first: "\<not> URSMRegistrationManager_run env i"
    using Suc.prems by (metis add.right_neutral zero_less_Suc)
  have rest: "\<forall>j<d. \<not> URSMRegistrationManager_run env (Suc i + j)"
    using Suc.prems by (metis Suc_less_eq add_Suc_shift)
  have "timeout 10000 s\<lparr>timeouts := timeouts (timeout 10000 s) @ replicate d 10000\<rparr>
          = s\<lparr>timeouts := timeouts s @ replicate (Suc d) 10000\<rparr>"
    by (simp add: timeout_def replicate_app_Cons_same)
  then show ?case
    using Suc.IH [OF rest, of "timeout 10000 s"] by (simp add: registerURSM_loop_retry [OF first])
qed

lemma registerURSM_loop_Some:
  assumes "registerURSM_loop env i s = Some s'"
  shows "\<exists>k\<ge>i. URSMRegistrationManager_run env k"
proof (rule registerURSM_loop.raw_induct
    [where P = "\<lambda>env i s s'. \<exists>k\<ge>i. URSMRegistrationManager_run env k", OF _ assms])
  fix rl env i s s'
  assume IH: "\<And>env i s s'. rl env i s = Some s' \<Longrightarrow> \<exists>k\<ge>i. URSMRegistrationManager_run env k"
    and body: "(if URSMRegistrationManager_run env i then Some (s\<lparr>registeredOnURSM := True\<rparr>)
                else rl env (Suc i) (timeout 10000 s)) = Some s'"
  show "\<exists>k\<ge>i. URSMRegistrationManager_run env k"
  proof (cases "URSMRegistrationManager_run env i")
    case True
    then show ?thesis by blast
  next
    case False
    then have "rl env (Suc i) (timeout 10000 s) = Some s'"
      using body by simp
    from IH [OF this] show ?thesis using Suc_leD by blast
  qed
qed

lemma register_never:
  assumes "(\<forall>k. initUserReplicaSetManagerClient env k \<noteq> InitReturns True)
             \<or> (\<forall>m. \<not> URSMRegistrationManager_run env m)"
  shows "registerNodeOnL2URSM env s = None"
proof (cases "registerNodeOnL2URSM env s")
  case None
  then show ?thesis .
next
  case (Some s')
  then obtain s1 where
    a: "initURSMClient_loop env (if devMode env then 10000 else 600000) 0 s = Some s1"
    and b: "registerURSM_loop env 0 (s1\<lparr>URSMRegistrationManager := True\<rparr>) = Some s'"
    by (auto simp: registerNodeOnL2URSM_def Let_def split: option.splits)
  from initURSMClient_loop_Some [OF a] registerURSM_loop_Some [OF b] assms
  show ?thesis by blast
qed

lemma register_first:
  assumes "initUserReplicaSetManagerClient env k = InitReturns True"
    and "\<forall>j<k. initUserReplicaSetManagerClient env j \<noteq> InitReturns True"
    and "URSMRegistrationManager_run env m"
    and "\<forall>j<m. \<not> URSMRegistrationManager_run env j"
  shows "registerNodeOnL2URSM env s =
           Some (s\<lparr>timeouts := timeouts s @ replicate k (if devMode env then 10000 else 600000)
                                  @ replicate m 10000,
                  UserReplicaSetManagerClient := True, URSMRegistrationManager := True,
                  registeredOnURSM := True\<rparr>)"
proof -
  let ?ms = "if devMode env then 10000 else 600000 :: nat"
  have a: "initURSMClient_loop env ?ms 0 s =
             Some (s\<lparr>timeouts := timeouts s @ replicate k ?ms, UserReplicaSetManagerClient := True\<rparr>)"
    using initURSMClient_loop_run [of k env 0 ?ms s] assms(1,2)
    by (simp add: initURSMClient_loop_done)
  have b: "registerURSM_loop env 0 s1 =
             Some (s1\<lparr>timeouts := timeouts s1 @ replicate m 10000, registeredOnURSM := True\<rparr>)" for s1
    using registerURSM_loop_run [of m env 0 s1] assms(3,4)
    by (simp add: registerURSM_loop_done)
  show ?thesis
    unfolding registerNodeOnL2URSM_def Let_def a by (simp add: b)
qed

text \<open>
  C8. While every lookup of the service-provider id returns 0 (or throws),
  \<^verbatim>\<open>_recoverNodeL1Identity\<close> does not return, and neither does the bootstrap that awaits it.
  When attempt \<open>k\<close> is the first to return a non-zero id \<open>n\<close>, the loop returns after
  exactly \<open>k\<close> waits of 5000 ms with \<open>n\<close> stored as \<open>spID\<close>; a returned state always
  holds a non-zero \<open>spID\<close>. \<^verbatim>\<open>_registerNodeOnL2URSM\<close> does not return while the contract
  client never appears or no registration attempt succeeds; when call \<open>k\<close> is the first
  after which the client is present and attempt \<open>m\<close> is the first registration that
  succeeds, it returns after \<open>k\<close> waits of 10000 ms in dev mode and of 600000 ms
  otherwise, followed by \<open>m\<close> waits of 10000 ms.
\<close>

theorem identity_bootstrap_retry:
  "((\<forall>k. getServiceProviderIdFromEndpoint env k = SpID 0 \<or>
          getServiceProviderIdFromEndpoint env k = SpThrows) \<longrightarrow>
      recoverNodeL1Identity env s = None \<and> initServicesThatRequireServer env s = None) \<and>
   (getServiceProviderIdFromEndpoint env k = SpID n \<and> n \<noteq> 0 \<and>
    (\<forall>j<k. getServiceProviderIdFromEndpoint env j = SpID 0 \<or>
            getServiceProviderIdFromEndpoint env j = SpThrows) \<longrightarrow>
      recoverNodeL1Identity env s =
        Some (s\<lparr>timeouts := timeouts s @ replicate k 5000, spID := Some n\<rparr>)) \<and>
   (\<forall>s'. recoverNodeL1Identity env s = Some s' \<longrightarrow> (\<exists>n. n \<noteq> 0 \<and> spID s' = Some n)) \<and>
   ((\<forall>k. initUserReplicaSetManagerClient env k \<noteq> InitReturns True) \<or>
    (\<forall>m. \<not> URSMRegistrationManager_run env m) \<longrightarrow>
      registerNodeOnL2URSM env s = None) \<and>
   (initUserReplicaSetManagerClient env c = InitReturns True \<and>
    (\<forall>j<c. initUserReplicaSetManagerClient env j \<noteq> InitReturns True) \<and>
    URSMRegistrationManager_run env m \<and> (\<forall>j<m. \<not> URSMRegistrationManager_run env j) \<longrightarrow>
      registerNodeOnL2URSM env s =
        Some (s\<lparr>timeouts := timeouts s @ replicate c (if devMode env then 10000 else 600000)
                               @ replicate m 10000,
               UserReplicaSetManagerClient := True, URSMRegistrationManager := True,
               registeredOnURSM := True\<rparr>))"
proof -
  have zero: "(r = SpID 0 \<or> r = SpThrows) = (\<not> resolved r)" for r
    by (cases r) auto
  have never: "recoverNodeL1Identity env s = None \<and> initServicesThatRequireServer env s = None"
    if "\<forall>k. \<not> resolved (getServiceProviderIdFromEndpoint env k)"
    using recover_never [OF that, of s] by (simp add: initServicesThatRequireServer_def)
  have stored: "\<exists>n. n \<noteq> 0 \<and> spID s' = Some n" if r: "recoverNodeL1Identity env s = Some s'" for s'
  proof -
    from recover_loop_Some [OF r [unfolded recoverNodeL1Identity_def]]
    have ex: "\<exists>k. resolved (getServiceProviderIdFromEndpoint env k)" by blast
    define k where "k = (LEAST k. resolved (getServiceProviderIdFromEndpoint env k))"
    have rk: "resolved (getServiceProviderIdFromEndpoint env k)"
      unfolding k_def using ex by (rule LeastI_ex)
    have lt: "\<forall>j<k. \<not> resolved (getServiceProviderIdFromEndpoint env j)"
      unfolding k_def using not_less_Least by blast
    from rk obtain n where n: "getServiceProviderIdFromEndpoint env k = SpID n" "n \<noteq> 0"
      by (cases "getServiceProviderIdFromEndpoint env k") auto
    from recover_first [OF n lt, of s] r show ?thesis using n(2) by auto
  qed
  show ?thesis
    using never recover_first [of env k n s] stored register_never [of env s]
      register_first [of env c m s]
    by (simp only: zero) blast
qed

theorem identity_bootstrap_retry_witness:
  "recoverNodeL1Identity
     \<lparr>getServiceProviderIdFromEndpoint = (\<lambda>k. SpID 0), initUserReplicaSetManagerClient = (\<lambda>k. InitThrows),
      URSMRegistrationManager_run = (\<lambda>k. False), snapbackSM_init = (\<lambda>k. True), devMode = False\<rparr>
     \<lparr>spID = None, snapbackSM = False, syncQueue = False, UserReplicaSetManagerClient = False,
      URSMRegistrationManager = False, registeredOnURSM = False, skippedCIDsRetryQueue = False,
      servicesThatRequireServerInitialized = False, timeouts = []\<rparr> = None \<and>
   recoverNodeL1Identity
     \<lparr>getServiceProviderIdFromEndpoint = (\<lambda>k. if k < Suc (Suc 0) then SpID 0 else SpID 7),
      initUserReplicaSetManagerClient = (\<lambda>k. if k < Suc 0 then InitReturns False else InitReturns True),
      URSMRegistrationManager_run = (\<lambda>k. Suc (Suc (Suc 0)) \<le> k), snapbackSM_init = (\<lambda>k. True), devMode = False\<rparr>
     \<lparr>spID = None, snapbackSM = False, syncQueue = False, UserReplicaSetManagerClient = False,
      URSMRegistrationManager = False, registeredOnURSM = False, skippedCIDsRetryQueue = False,
      servicesThatRequireServerInitialized = False, timeouts = []\<rparr> =
     Some \<lparr>spID = Some 7, snapbackSM = False, syncQueue = False, UserReplicaSetManagerClient = False,
      URSMRegistrationManager = False, registeredOnURSM = False, skippedCIDsRetryQueue = False,
      servicesThatRequireServerInitialized = False, timeouts = [5000, 5000]\<rparr> \<and>
   registerNodeOnL2URSM
     \<lparr>getServiceProviderIdFromEndpoint = (\<lambda>k. if k < Suc (Suc 0) then SpID 0 else SpID 7),
      initUserReplicaSetManagerClient = (\<lambda>k. if k < Suc 0 then InitReturns False else InitReturns True),
      URSMRegistrationManager_run = (\<lambda>k. Suc (Suc (Suc 0)) \<le> k), snapbackSM_init = (\<lambda>k. True), devMode = False\<rparr>
     \<lparr>spID = Some 7, snapbackSM = True, syncQueue = True, UserReplicaSetManagerClient = False,
      URSMRegistrationManager = False, registeredOnURSM = False, skippedCIDsRetryQueue = False,
      servicesThatRequireServerInitialized = False, timeouts = []\<rparr> =
     Some \<lparr>spID = Some 7, snapbackSM = True, syncQueue = True, UserReplicaSetManagerClient = True,
      URSMRegistrationManager = True, registeredOnURSM = True, skippedCIDsRetryQueue = False,
      servicesThatRequireServerInitialized = False, timeouts = [600000, 10000, 10000, 10000]\<rparr>"
  using identity_bootstrap_retry
      [of "\<lparr>getServiceProviderIdFromEndpoint = (\<lambda>k. SpID 0), initUserReplicaSetManagerClient = (\<lambda>k. InitThrows),
            URSMRegistrationManager_run = (\<lambda>k. False), snapbackSM_init = (\<lambda>k. True), devMode = False\<rparr>"
          "\<lparr>spID = None, snapbackSM = False, syncQueue = False, UserReplicaSetManagerClient = False,
            URSMRegistrationManager = False, registeredOnURSM = False, skippedCIDsRetryQueue = False,
            servicesThatRequireServerInitialized = False, timeouts = []\<rparr>" 0 1 0 0]
    identity_bootstrap_retry
      [of "\<lparr>getServiceProviderIdFromEndpoint = (\<lambda>k. if k < Suc (Suc 0) then SpID 0 else SpID 7),
            initUserReplicaSetManagerClient = (\<lambda>k. if k < Suc 0 then InitReturns False else InitReturns True),
            URSMRegistrationManager_run = (\<lambda>k. Suc (Suc (Suc 0)) \<le> k), snapbackSM_init = (\<lambda>k. True), devMode = False\<rparr>"
          "\<lparr>spID = None, snapbackSM = False, syncQueue = False, UserReplicaSetManagerClient = False,
            URSMRegistrationManager = False, registeredOnURSM = False, skippedCIDsRetryQueue = False,
            servicesThatRequireServerInitialized = False, timeouts = []\<rparr>" "Suc (Suc 0)" 7 "Suc 0" "Suc (Suc (Suc 0))"]
    identity_bootstrap_retry
      [of "\<lparr>getServiceProviderIdFromEndpoint = (\<lambda>k. if k < Suc (Suc 0) then SpID 0 else SpID 7),
            initUserReplicaSetManagerClient = (\<lambda>k. if k < Suc 0 then InitReturns False else InitReturns True),
            URSMRegistrationManager_run = (\<lambda>k. Suc (Suc (Suc 0)) \<le> k), snapbackSM_init = (\<lambda>k. True), devMode = False\<rparr>"
          "\<lparr>spID = Some 7, snapbackSM = True, syncQueue = True, UserReplicaSetManagerClient = False,
            URSMRegistrationManager = False, registeredOnURSM = False, skippedCIDsRetryQueue = False,
            servicesThatRequireServerInitialized = False, timeouts = []\<rparr>" "Suc (Suc 0)" 7 "Suc 0" "Suc (Suc (Suc 0))"]
  by (simp add: less_Suc_eq)

section \<open>Properties of processSync\<close>

subsection \<open>Locks\<close>

lemma getNodeSyncRedisKey_inj [simp]:
  "(getNodeSyncRedisKey a = getNodeSyncRedisKey b) = (a = b)"
  by (simp add: getNodeSyncRedisKey_def)

lemma acquireLocks_free:
  "distinct ws \<Longrightarrow> \<forall>w\<in>set ws. getNodeSyncRedisKey w \<notin> locks s \<Longrightarrow>
   acquireLocks ws rk s =
     (None, (if ws = [] then rk else Some (getNodeSyncRedisKey (last ws))),
      s\<lparr>locks := locks s \<union> getNodeSyncRedisKey ` set ws\<rparr>)"
proof (induction ws arbitrary: rk s)
  case Nil
  then show ?case by simp
next
  case (Cons w ws)
  have free: "\<forall>v\<in>set ws. getNodeSyncRedisKey v \<notin> locks (setLock (getNodeSyncRedisKey w) s)"
    using Cons.prems by (auto simp: setLock_def)
  have d: "distinct ws" using Cons.prems by simp
  show ?case
    using Cons.prems Cons.IH [OF d free, of "Some (getNodeSyncRedisKey w)"]
    by (simp add: getLock_def setLock_def Let_def)
qed

lemma releaseLocks_fields:
  "locks (releaseLocks ws s) = locks s - getNodeSyncRedisKey ` set ws"
  "db (releaseLocks ws s) = db s"
  "failureCounts (releaseLocks ws s) = failureCounts s"
  "syncHistory (releaseLocks ws s) = syncHistory s"
  "exportRequests (releaseLocks ws s) = exportRequests s"
  unfolding releaseLocks_def
  by (induction ws arbitrary: s) (auto simp: removeLock_def)

lemma recordSyncFails_fields:
  "locks (recordSyncFails ws s) = locks s"
  "db (recordSyncFails ws s) = db s"
  "failureCounts (recordSyncFails ws s) = failureCounts s"
  "syncHistory (recordSyncFails ws s) = syncHistory s @ map SyncFail ws"
  "exportRequests (recordSyncFails ws s) = exportRequests s"
  unfolding recordSyncFails_def
  by (induction ws arbitrary: s) (auto simp: recordSyncFail_def)

lemma removeLock_fields:
  "locks (removeLock rk s) = (case rk of None \<Rightarrow> locks s | Some k \<Rightarrow> locks s - {k})"
  "db (removeLock rk s) = db s"
  "failureCounts (removeLock rk s) = failureCounts s"
  "syncHistory (removeLock rk s) = syncHistory s"
  "exportRequests (removeLock rk s) = exportRequests s"
  by (auto simp: removeLock_def split: option.splits)

lemma catchFinally_simps:
  "catchFinally ws None = None"
  "catchFinally ws (Some (Some e, t)) = Some (Some e, releaseLocks ws (recordSyncFails ws t))"
  "catchFinally ws (Some (None, t)) = Some (None, releaseLocks ws t)"
  by (simp_all add: catchFinally_def)

lemma catchFinally_Some:
  "catchFinally ws outcome = Some (r, s') \<Longrightarrow>
   \<exists>t. outcome = Some (r, t) \<and> db s' = db t \<and> failureCounts s' = failureCounts t \<and>
       exportRequests s' = exportRequests t \<and>
       locks s' = locks t - getNodeSyncRedisKey ` set ws"
  by (cases outcome; cases r)
     (auto simp: catchFinally_def releaseLocks_fields recordSyncFails_fields)

text \<open>Once the locks are acquired, the call is the try block followed by the catch and finally blocks.\<close>

lemma processSync_acquired:
  assumes "distinct ws" "\<forall>w\<in>set ws. getNodeSyncRedisKey w \<notin> locks s"
  shows "processSync env ws ep bn force s =
     catchFinally ws (syncBody env ws ep bn force (lastRedisKey ws)
       (s\<lparr>locks := locks s \<union> getNodeSyncRedisKey ` set ws\<rparr>))"
  unfolding processSync_def acquireLocks_free [OF assms] lastRedisKey_def
  by simp

lemma processSync_releases_locks:
  assumes "distinct ws" and "\<forall>w\<in>set ws. getNodeSyncRedisKey w \<notin> locks s"
    and "processSync env ws ep bn force s = Some (r, s')"
  shows "\<forall>w\<in>set ws. getNodeSyncRedisKey w \<notin> locks s'"
  using assms(3) unfolding processSync_acquired [OF assms(1,2)]
  by (auto dest!: catchFinally_Some)

subsection \<open>Content fetch\<close>

lemma set_add_set [simp]: "set (set_add x xs) = insert x (set xs)"
  by (auto simp: set_add_def)

lemma saveSlice_set:
  "set (saveSlice save fs failed) = set failed \<union> multihash ` {f \<in> set fs. \<not> save f}"
  by (induction fs arbitrary: failed) auto

lemma saveInBatches_set:
  "0 < n \<Longrightarrow>
   \<exists>failed'. saveInBatches n save fs i failed = Some failed' \<and>
     set failed' = set failed \<union> multihash ` {f \<in> set (drop i fs). \<not> save f}"
proof (induction n save fs i failed rule: saveInBatches.induct)
  case (1 n save fs i failed)
  show ?case
  proof (cases "i < length fs")
    case False
    then show ?thesis by (subst saveInBatches.simps) simp
  next
    case True
    from "1.IH" [OF True] "1.prems"
    obtain failed' where
      r: "saveInBatches n save fs (i + n) (saveSlice save (take n (drop i fs)) failed) = Some failed'"
      and s: "set failed' = set (saveSlice save (take n (drop i fs)) failed)
                \<union> multihash ` {f \<in> set (drop (i + n) fs). \<not> save f}"
      by auto
    have split: "set (drop i fs) = set (take n (drop i fs)) \<union> set (drop (i + n) fs)"
      by (metis add.commute append_take_drop_id drop_drop set_append)
    have "saveInBatches n save fs i failed = Some failed'"
      using True "1.prems" r by (subst saveInBatches.simps) simp
    moreover have "set failed' = set failed \<union> multihash ` {f \<in> set (drop i fs). \<not> save f}"
      unfolding s saveSlice_set split by auto
    ultimately show ?thesis by blast
  qed
qed

lemma saveInBatches_zero:
  "fs \<noteq> [] \<Longrightarrow> saveInBatches 0 save fs 0 failed = None"
  by (subst saveInBatches.simps) simp

lemma file_type_partition:
  "(t \<in> set NonTrackTypes) = (t \<notin> set TrackTypes)"
  by (cases t) (simp_all add: TrackTypes_def NonTrackTypes_def)

lemma fetchContent_set:
  assumes "0 < FileSaveMaxConcurrency env"
  shows "\<exists>failed.
     fetchContent env rs (filter (\<lambda>f. ftype f \<in> set TrackTypes) fs)
       (filter (\<lambda>f. ftype f \<in> set NonTrackTypes) fs) = Some failed \<and>
     set failed = multihash ` {f \<in> set fs. \<not> saved env rs f}"
proof -
  let ?tf = "filter (\<lambda>f. ftype f \<in> set TrackTypes) fs"
  let ?ntf = "filter (\<lambda>f. ftype f \<in> set NonTrackTypes) fs"
  from saveInBatches_set [OF assms, of "saveTrackFile env rs" ?tf 0 "[]"]
  obtain f1 where a: "saveInBatches (FileSaveMaxConcurrency env) (saveTrackFile env rs) ?tf 0 [] = Some f1"
    and a': "set f1 = multihash ` {f \<in> set ?tf. \<not> saveTrackFile env rs f}"
    by auto
  from saveInBatches_set [OF assms, of "saveNonTrackFile env rs" ?ntf 0 f1]
  obtain f2 where b: "saveInBatches (FileSaveMaxConcurrency env) (saveNonTrackFile env rs) ?ntf 0 f1 = Some f2"
    and b': "set f2 = set f1 \<union> multihash ` {f \<in> set ?ntf. \<not> saveNonTrackFile env rs f}"
    by auto
  have "fetchContent env rs ?tf ?ntf = Some f2"
    by (simp add: fetchContent_def a b)
  moreover have "set f2 = multihash ` {f \<in> set fs. \<not> saved env rs f}"
    unfolding b' a' by (auto simp: saved_def file_type_partition)
  ultimately show ?thesis by blast
qed

subsection \<open>The transaction of one user\<close>

lemma userTransaction_rejected:
  assumes "db_statements env w \<noteq> UserStatementThrows"
    and "fetchContent env rs (filter (\<lambda>f. ftype f \<in> set TrackTypes) (files u))
           (filter (\<lambda>f. ftype f \<in> set NonTrackTypes) (files u)) = Some failed"
    and "failed \<noteq> []"
    and "Suc (failureCounts t w) < SyncRequestMaxUserFailureCountBeforeSkip env"
  shows "userTransaction env rk w rs u t =
     Some (Some (TransactionFailed (ContentFetchFailed (length failed) (Suc (failureCounts t w))
                   (SyncRequestMaxUserFailureCountBeforeSkip env))),
           removeLock rk (t\<lparr>failureCounts := (failureCounts t)(w := Suc (failureCounts t w))\<rparr>))"
  using assms
  by (simp add: userTransaction_def Let_def incrementFailureCount_def rollback_def)

lemma userTransaction_committed:
  assumes "db_statements env w = DbOk"
    and "fetchContent env rs (filter (\<lambda>f. ftype f \<in> set TrackTypes) (files u))
           (filter (\<lambda>f. ftype f \<in> set NonTrackTypes) (files u)) = Some failed"
    and "failed = [] \<or> SyncRequestMaxUserFailureCountBeforeSkip env \<le> Suc (failureCounts t w)"
  shows "userTransaction env rk w rs u t =
     Some (None,
       recordSyncSuccess w (removeLock rk
         (t\<lparr>failureCounts := (failureCounts t)(w := 0),
            db := writeRecords w (upsertCNodeUser env w u (CNodeUsers (db t) w)) u
                    (filter (\<lambda>f. ftype f \<in> set TrackTypes) (files u))
                    (filter (\<lambda>f. ftype f \<in> set NonTrackTypes) (files u)) failed (db t)\<rparr>)))"
  using assms
  by (auto simp add: userTransaction_def Let_def incrementFailureCount_def resetFailureCount_def
      writeAndCommit_def commit_def)

lemma userTransaction_write_throws:
  assumes "db_statements env w = WriteThrows"
    and "fetchContent env rs (filter (\<lambda>f. ftype f \<in> set TrackTypes) (files u))
           (filter (\<lambda>f. ftype f \<in> set NonTrackTypes) (files u)) = Some failed"
    and "failed = [] \<or> SyncRequestMaxUserFailureCountBeforeSkip env \<le> Suc (failureCounts t w)"
  shows "userTransaction env rk w rs u t =
     Some (Some (TransactionFailed DatabaseError),
       removeLock rk (t\<lparr>failureCounts := (failureCounts t)(w := 0)\<rparr>))"
  using assms
  by (auto simp add: userTransaction_def Let_def incrementFailureCount_def resetFailureCount_def
      writeAndCommit_def rollback_def)



lemma userTransaction_exportRequests:
  "userTransaction env rk w rs u t = Some (r, t') \<Longrightarrow> exportRequests t' = exportRequests t"
  by (auto simp: userTransaction_def Let_def incrementFailureCount_def resetFailureCount_def
      writeAndCommit_def commit_def rollback_def removeLock_fields recordSyncSuccess_def
      split: if_splits option.splits)

lemma writeRecords_fields:
  "CNodeUsers (writeRecords w cu u tf ntf failed d) = (CNodeUsers d)(w \<mapsto> cu)"
  "ClockRecords (writeRecords w cu u tf ntf failed d) =
     ClockRecords d @ map (\<lambda>r. r\<lparr>cr_cnodeUserUUID := cnodeUserUUID cu\<rparr>) (clockRecords u)"
  "Files (writeRecords w cu u tf ntf failed d) =
     Files d @ map (nonTrackFileRow failed (cnodeUserUUID cu)) ntf
             @ map (trackFileRow failed (cnodeUserUUID cu)) tf"
  by (simp_all add: writeRecords_def Let_def)

lemma upsertCNodeUser_clock: "clock (upsertCNodeUser env w u r) = fetched_clock u"
  by (simp add: upsertCNodeUser_def split: option.splits)


lemma skipped_row_inserted:
  assumes "f \<in> set fs" and "multihash f \<in> set failed"
  shows "\<exists>r\<in>set (map (nonTrackFileRow failed uuid) (filter (\<lambda>f. ftype f \<in> set NonTrackTypes) fs)
                 @ map (trackFileRow failed uuid) (filter (\<lambda>f. ftype f \<in> set TrackTypes) fs)).
           fileUUID r = fileUUID f \<and> multihash r = multihash f \<and> skipped r"
proof (cases "ftype f \<in> set TrackTypes")
  case True
  then have "trackFileRow failed uuid f
     \<in> set (map (trackFileRow failed uuid) (filter (\<lambda>f. ftype f \<in> set TrackTypes) fs))"
    using assms(1) by simp
  moreover have "fileUUID (trackFileRow failed uuid f) = fileUUID f
      \<and> multihash (trackFileRow failed uuid f) = multihash f \<and> skipped (trackFileRow failed uuid f)"
    using assms(2) by (simp add: trackFileRow_def)
  ultimately show ?thesis by (metis Un_iff set_append)
next
  case False
  then have "nonTrackFileRow failed uuid f
     \<in> set (map (nonTrackFileRow failed uuid) (filter (\<lambda>f. ftype f \<in> set NonTrackTypes) fs))"
    using assms(1) by (simp add: file_type_partition)
  moreover have "fileUUID (nonTrackFileRow failed uuid f) = fileUUID f
      \<and> multihash (nonTrackFileRow failed uuid f) = multihash f
      \<and> skipped (nonTrackFileRow failed uuid f)"
    using assms(2) by (simp add: nonTrackFileRow_def)
  ultimately show ?thesis by (metis Un_iff set_append)
qed

subsection \<open>The loop over the fetched users\<close>

lemma syncUser_checks:
  assumes "fetched_walletPublicKey u = Some w" and "w \<in> set ws"
  shows "fetched_clock u < local \<Longrightarrow>
           syncUser env ws bn local rk u t = Some (Some (ClockRegression local (fetched_clock u)), t)"
    and "fetched_clock u = local \<Longrightarrow> syncUser env ws bn local rk u t = Some (None, t)"
    and "local < fetched_clock u \<Longrightarrow> local \<noteq> - 1 \<Longrightarrow> clockRecords u \<noteq> [] \<Longrightarrow>
         cr_clock (hd (clockRecords u)) \<noteq> local + 1 \<Longrightarrow>
           syncUser env ws bn local rk u t =
             Some (Some (NonContiguous local (cr_clock (hd (clockRecords u)))), t)"
    and "local < fetched_clock u \<Longrightarrow>
         local = - 1 \<or> clockRecords u = [] \<or> cr_clock (hd (clockRecords u)) = local + 1 \<Longrightarrow>
           syncUser env ws bn local rk u t = userTransaction env rk w (userReplicaSet env w bn) u t"
  using assms by (auto simp: syncUser_def Let_def)

lemma syncUser_exportRequests:
  "syncUser env ws bn local rk u t = Some (r, t') \<Longrightarrow> exportRequests t' = exportRequests t"
  by (auto simp: syncUser_def Let_def dest: userTransaction_exportRequests
      split: option.splits if_splits)

lemma syncUsers_exportRequests:
  "syncUsers env ws bn local rk us t = Some (r, t') \<Longrightarrow> exportRequests t' = exportRequests t"
proof (induction us arbitrary: t)
  case Nil
  then show ?case by simp
next
  case (Cons u us)
  then show ?case
    by (auto split: option.splits prod.splits dest: syncUser_exportRequests)
qed

lemma syncUsers_append:
  "syncUsers env ws bn local rk pre s = Some (None, t) \<Longrightarrow>
   syncUsers env ws bn local rk (pre @ us) s = syncUsers env ws bn local rk us t"
proof (induction pre arbitrary: s)
  case Nil
  then show ?case by simp
next
  case (Cons v pre)
  then show ?case
    by (cases "syncUser env ws bn local rk v s") (auto split: option.splits)
qed

subsection \<open>The baseline and the try block\<close>

lemma clockBaseline_eq:
  "clockBaseline env force ws s =
     (if baselineStatementThrows env then Inl DatabaseError
      else Inr ((if force then - 1
                 else case findCNodeUser (firstWallet ws) (db s) of
                        None \<Rightarrow> - 1 | Some cu \<Rightarrow> clock cu),
                s\<lparr>db := (if force then deleteAllCNodeUserDataFromDB (firstWallet ws) (db s)
                          else db s)\<rparr>))"
  by (simp add: clockBaseline_def Let_def split: option.splits)

lemma clockBaseline_locks:
  "clockBaseline env force ws (s\<lparr>locks := L\<rparr>) =
     (case clockBaseline env force ws s of
        Inl e \<Rightarrow> Inl e
      | Inr (l, s0) \<Rightarrow> Inr (l, s0\<lparr>locks := L\<rparr>))"
  by (simp add: clockBaseline_eq)

lemma clockBaseline_Inr:
  "clockBaseline env force ws s = Inr (l, s0) \<Longrightarrow>
   locks s0 = locks s \<and> failureCounts s0 = failureCounts s \<and>
   syncHistory s0 = syncHistory s \<and> exportRequests s0 = exportRequests s"
  by (auto simp: clockBaseline_eq split: if_splits)

text \<open>The call, once the locks are acquired: a thrown baseline statement, or the handling of the export.\<close>

lemma processSync_try_block:
  assumes "distinct ws" and "\<forall>v\<in>set ws. getNodeSyncRedisKey v \<notin> locks s"
  shows "processSync env ws ep bn force s =
     (case clockBaseline env force ws s of
        Inl e \<Rightarrow> Some (Some e, s\<lparr>syncHistory := syncHistory s @ map SyncFail ws\<rparr>)
      | Inr (local, s0) \<Rightarrow>
          catchFinally ws
            (handleExport env ws bn local (lastRedisKey ws)
               (fetchExport env (exportQueryParams env ep ws local))
               (s0\<lparr>locks := locks s \<union> getNodeSyncRedisKey ` set ws,
                   exportRequests := exportRequests s @ [exportQueryParams env ep ws local]\<rparr>)))"
proof (cases "baselineStatementThrows env")
  case True
  have free: "locks s \<union> getNodeSyncRedisKey ` set ws - getNodeSyncRedisKey ` set ws = locks s"
    using assms(2) by auto
  have "releaseLocks ws (recordSyncFails ws (s\<lparr>locks := locks s \<union> getNodeSyncRedisKey ` set ws\<rparr>))
          = s\<lparr>syncHistory := syncHistory s @ map SyncFail ws\<rparr>"
    by (rule node_state.equality)
       (simp_all add: releaseLocks_fields recordSyncFails_fields free)
  then show ?thesis
    using True
    by (simp add: processSync_acquired [OF assms] syncBody_def clockBaseline_eq catchFinally_simps)
next
  case False
  have st: "s\<lparr>locks := L, db := d, exportRequests := q\<rparr> = s\<lparr>db := d, locks := L, exportRequests := q\<rparr>"
    for L d q
    by (cases s) simp
  from False show ?thesis
    by (cases force)
       (simp_all add: processSync_acquired [OF assms] syncBody_def clockBaseline_eq Let_def st)
qed

lemma processSync_reaches:
  assumes "reaches env ws ep bn force s pre u post local t"
  shows "processSync env ws ep bn force s =
           catchFinally ws (syncUsers env ws bn local (lastRedisKey ws) (u # post) t)"
proof -
  from assms have d: "distinct ws" and f: "\<forall>v\<in>set ws. getNodeSyncRedisKey v \<notin> locks s"
    by (simp_all add: reaches_def)
  from assms obtain s0 where
    b: "clockBaseline env force ws s = Inr (local, s0)"
    and e: "fetchExport env (exportQueryParams env ep ws local) = ExportBody (pre @ u # post)"
    and p: "syncUsers env ws bn local (lastRedisKey ws) pre
             (s0\<lparr>locks := locks s \<union> getNodeSyncRedisKey ` set ws,
                 exportRequests := exportRequests s @ [exportQueryParams env ep ws local]\<rparr>)
             = Some (None, t)"
    by (auto simp: reaches_def split: sum.splits)
  show ?thesis
    unfolding processSync_try_block [OF d f] b
    by (simp add: e handleExport_def syncUsers_append [OF p])
qed

subsection \<open>The call returns\<close>

lemma userTransaction_returns:
  assumes "0 < FileSaveMaxConcurrency env"
  shows "\<exists>r t'. userTransaction env rk w rs u t = Some (r, t')"
proof -
  from fetchContent_set [OF assms, of rs "files u"]
  obtain failed where
    "fetchContent env rs (filter (\<lambda>f. ftype f \<in> set TrackTypes) (files u))
       (filter (\<lambda>f. ftype f \<in> set NonTrackTypes) (files u)) = Some failed"
    by blast
  then show ?thesis
    by (simp add: userTransaction_def Let_def incrementFailureCount_def rollback_def
        writeAndCommit_def commit_def)
qed

lemma syncUser_returns:
  assumes "0 < FileSaveMaxConcurrency env"
  shows "\<exists>r t'. syncUser env ws bn local rk u t = Some (r, t')"
  using userTransaction_returns [OF assms]
  by (simp add: syncUser_def Let_def split: option.splits)

lemma syncUsers_returns:
  assumes "0 < FileSaveMaxConcurrency env"
  shows "\<exists>r t'. syncUsers env ws bn local rk us t = Some (r, t')"
proof (induction us arbitrary: t)
  case Nil
  then show ?case by simp
next
  case (Cons u us)
  from syncUser_returns [OF assms, of ws bn local rk u t]
  obtain r t1 where "syncUser env ws bn local rk u t = Some (r, t1)" by blast
  then show ?case using Cons [of t1] by (cases r) auto
qed

lemma handleExport_returns:
  assumes "0 < FileSaveMaxConcurrency env"
  shows "\<exists>r t'. handleExport env ws bn local rk exportResp t = Some (r, t')"
  using syncUsers_returns [OF assms]
  by (simp add: handleExport_def split: export_response.splits)

lemma handleExport_exportRequests:
  "handleExport env ws bn local rk exportResp t = Some (r, t') \<Longrightarrow> exportRequests t' = exportRequests t"
  by (auto simp: handleExport_def split: export_response.splits dest: syncUsers_exportRequests)

lemmas example_defs =
  example_env_def example_fetched_def example_files_def example_file_def example_clock_record_def
  example_save_def example_replica_set_def example_uuid_def example_db_ok_def example_user_def
  example_db_def example_state_def example_fetched_for_def example_user_BB_def
  example_db_two_def example_state_two_def example_db_write_throws_def
  example_env_write_throws_def example_env_baseline_throws_def example_counts_two_def

lemmas processSync_defs =
  processSync_def catchFinally_def syncBody_def handleExport_def clockBaseline_def
  firstWallet_def findCNodeUser_def
  exportQueryParams_def syncUser_def userTransaction_def userReplicaSet_def fetchContent_def
  saveInBatches.simps saveTrackFile_def saveNonTrackFile_def set_add_def
  incrementFailureCount_def resetFailureCount_def writeAndCommit_def writeRecords_def
  upsertCNodeUser_def nonTrackFileRow_def trackFileRow_def rollback_def commit_def
  removeLock_def getLock_def setLock_def getNodeSyncRedisKey_def recordSyncSuccess_def
  recordSyncFail_def recordSyncFails_def releaseLocks_def TrackTypes_def NonTrackTypes_def
  deleteAllCNodeUserDataFromDB_def

subsection \<open>The failure gate\<close>

lemma saveInBatches_Some_set:
  "saveInBatches n save fs i failed = Some failed' \<Longrightarrow>
   set failed' = set failed \<union> multihash ` {f \<in> set (drop i fs). \<not> save f}"
proof (induction n save fs i failed rule: saveInBatches.induct)
  case (1 n save fs i failed)
  show ?case
  proof (cases "i < length fs")
    case False
    with "1.prems" show ?thesis by (subst (asm) saveInBatches.simps) simp
  next
    case True
    from "1.prems" True have n: "n \<noteq> 0"
      by (subst (asm) saveInBatches.simps) (auto split: if_splits)
    from "1.prems" True n
    have r: "saveInBatches n save fs (i + n) (saveSlice save (take n (drop i fs)) failed) = Some failed'"
      by (subst (asm) saveInBatches.simps) simp
    from "1.IH" [OF True n r]
    have s: "set failed' = set (saveSlice save (take n (drop i fs)) failed)
                \<union> multihash ` {f \<in> set (drop (i + n) fs). \<not> save f}" .
    have split: "set (drop i fs) = set (take n (drop i fs)) \<union> set (drop (i + n) fs)"
      by (metis add.commute append_take_drop_id drop_drop set_append)
    show ?thesis
      unfolding s saveSlice_set split by auto
  qed
qed

lemma fetchContent_Some_set:
  assumes "fetchContent env rs (filter (\<lambda>f. ftype f \<in> set TrackTypes) fs)
             (filter (\<lambda>f. ftype f \<in> set NonTrackTypes) fs) = Some failed"
  shows "set failed = multihash ` {f \<in> set fs. \<not> saved env rs f}"
proof -
  let ?tf = "filter (\<lambda>f. ftype f \<in> set TrackTypes) fs"
  let ?ntf = "filter (\<lambda>f. ftype f \<in> set NonTrackTypes) fs"
  from assms obtain f1 where
    a: "saveInBatches (FileSaveMaxConcurrency env) (saveTrackFile env rs) ?tf 0 [] = Some f1"
    and b: "saveInBatches (FileSaveMaxConcurrency env) (saveNonTrackFile env rs) ?ntf 0 f1 = Some failed"
    by (auto simp: fetchContent_def split: option.splits)
  show ?thesis
    unfolding saveInBatches_Some_set [OF b] saveInBatches_Some_set [OF a]
    by (auto simp: saved_def file_type_partition)
qed

lemma failure_gate_general:
  assumes r: "reaches env ws ep bn force s pre u post local t"
    and w: "fetched_walletPublicKey u = Some w" "w \<in> set ws"
    and gt: "local < fetched_clock u"
    and cont: "local = - 1 \<or> clockRecords u = [] \<or> cr_clock (hd (clockRecords u)) = local + 1"
    and dbu: "db_statements env w \<noteq> UserStatementThrows"
    and fc: "fetchContent env (userReplicaSet env w bn)
               (filter (\<lambda>f. ftype f \<in> set TrackTypes) (files u))
               (filter (\<lambda>f. ftype f \<in> set NonTrackTypes) (files u)) = Some failed"
    and ne: "failed \<noteq> []"
  shows "set failed =
       set (map multihash (filter (\<lambda>f. \<not> saved env (userReplicaSet env w bn) f) (files u))) \<and>
     (Suc (failureCounts t w) < SyncRequestMaxUserFailureCountBeforeSkip env \<longrightarrow>
        (\<exists>s'. processSync env ws ep bn force s =
                 Some (Some (TransactionFailed (ContentFetchFailed (length failed)
                         (Suc (failureCounts t w)) (SyncRequestMaxUserFailureCountBeforeSkip env))), s') \<and>
               failureCounts s' w = Suc (failureCounts t w) \<and> db s' = db t)) \<and>
     (SyncRequestMaxUserFailureCountBeforeSkip env \<le> Suc (failureCounts t w) \<longrightarrow>
        (db_statements env w = DbOk \<longrightarrow>
           (\<exists>t'. syncUser env ws bn local (lastRedisKey ws) u t = Some (None, t') \<and>
                  failureCounts t' w = 0 \<and>
                  user_clock w t' = Some (fetched_clock u) \<and>
                  (\<forall>f\<in>set (files u). multihash f \<in> set failed \<longrightarrow>
                     (\<exists>r\<in>set (drop (length (Files (db t))) (Files (db t'))).
                        fileUUID r = fileUUID f \<and> multihash r = multihash f \<and> skipped r)) \<and>
                  processSync env ws ep bn force s =
                    catchFinally ws (syncUsers env ws bn local (lastRedisKey ws) post t'))) \<and>
        (db_statements env w = WriteThrows \<longrightarrow>
           (\<exists>s'. processSync env ws ep bn force s =
                    Some (Some (TransactionFailed DatabaseError), s') \<and>
                  failureCounts s' w = 0 \<and> db s' = db t)))"
proof -
  let ?rs = "userReplicaSet env w bn"
  let ?rk = "lastRedisKey ws"
  let ?thr = "SyncRequestMaxUserFailureCountBeforeSkip env"
  have fs': "set failed = set (map multihash (filter (\<lambda>f. \<not> saved env ?rs f) (files u)))"
    unfolding fetchContent_Some_set [OF fc] by auto
  have su: "syncUser env ws bn local ?rk u t = userTransaction env ?rk w ?rs u t"
    by (rule syncUser_checks(4) [OF w gt cont])
  note ps = processSync_reaches [OF r]
  have rej: "\<exists>s'. processSync env ws ep bn force s =
                 Some (Some (TransactionFailed (ContentFetchFailed (length failed)
                         (Suc (failureCounts t w)) ?thr)), s') \<and>
               failureCounts s' w = Suc (failureCounts t w) \<and> db s' = db t"
    if "Suc (failureCounts t w) < ?thr"
    unfolding ps
    using userTransaction_rejected [OF dbu fc ne that, of ?rk]
    by (simp add: su catchFinally_simps releaseLocks_fields recordSyncFails_fields removeLock_fields)
  have com: "\<exists>t'. syncUser env ws bn local ?rk u t = Some (None, t') \<and>
                  failureCounts t' w = 0 \<and>
                  user_clock w t' = Some (fetched_clock u) \<and>
                  (\<forall>f\<in>set (files u). multihash f \<in> set failed \<longrightarrow>
                     (\<exists>r\<in>set (drop (length (Files (db t))) (Files (db t'))).
                        fileUUID r = fileUUID f \<and> multihash r = multihash f \<and> skipped r)) \<and>
                  processSync env ws ep bn force s =
                    catchFinally ws (syncUsers env ws bn local ?rk post t')"
    if "?thr \<le> Suc (failureCounts t w)" "db_statements env w = DbOk"
    unfolding ps
    using userTransaction_committed [OF that(2) fc, of t ?rk] that(1)
      skipped_row_inserted [of _ "files u" failed]
    by (simp add: su removeLock_fields recordSyncSuccess_def user_clock_def
        writeRecords_fields upsertCNodeUser_clock)
  have thr: "\<exists>s'. processSync env ws ep bn force s =
                    Some (Some (TransactionFailed DatabaseError), s') \<and>
                  failureCounts s' w = 0 \<and> db s' = db t"
    if "?thr \<le> Suc (failureCounts t w)" "db_statements env w = WriteThrows"
    unfolding ps
    using userTransaction_write_throws [OF that(2) fc, of t ?rk] that(1)
    by (simp add: su catchFinally_simps releaseLocks_fields recordSyncFails_fields removeLock_fields)
  show ?thesis using fs' rej com thr by blast
qed

subsection \<open>The clock comparison in a job for several wallets\<close>

text \<open>
  C1. The comparison of lines 221 to 240 is made, for every user of the export, against
  \<^verbatim>\<open>localMaxClockVal\<close>, the clock of the stored user of \<^verbatim>\<open>walletPublicKeys[0]\<close>, and
  not against the clock that the secondary holds for the fetched user. The secondary
  holds \<^verbatim>\<open>0xAA\<close> at clock 3 and \<^verbatim>\<open>0xBB\<close> at clock 10. A job for the two wallets in
  this order receives an export that holds \<^verbatim>\<open>0xBB\<close> at clock 5, with no clock
  records: the call returns no error and the row of \<^verbatim>\<open>0xBB\<close> goes from clock 10 back
  to clock 5. A job for the wallets in the other order receives an export that holds
  \<^verbatim>\<open>0xAA\<close> at clock 12 with the clock records 11 and 12: the call returns no error,
  the row of \<^verbatim>\<open>0xAA\<close> goes from clock 3 to clock 12, and the clock records of that
  user are then 3, 11 and 12. Neither the regression error nor the non-contiguity error
  is raised.
\<close>

theorem processSync_commits_regression_of_later_wallet:
  "user_clock ''0xAA'' example_state_two = Some 3 \<and>
   user_clock ''0xBB'' example_state_two = Some 10 \<and>
   returned_error
     (processSync (example_env [example_fetched_for ''0xBB'' 5 [] []])
        [''0xAA'', ''0xBB''] ''https://primary'' None False example_state_two) = Some None \<and>
   Option.bind
     (returned_state
        (processSync (example_env [example_fetched_for ''0xBB'' 5 [] []])
           [''0xAA'', ''0xBB''] ''https://primary'' None False example_state_two))
     (user_clock ''0xBB'') = Some 5 \<and>
   returned_error
     (processSync
        (example_env [example_fetched 12 [example_clock_record 11, example_clock_record 12] []])
        [''0xBB'', ''0xAA''] ''https://primary'' None False example_state_two) = Some None \<and>
   Option.bind
     (returned_state
        (processSync
           (example_env [example_fetched 12 [example_clock_record 11, example_clock_record 12] []])
           [''0xBB'', ''0xAA''] ''https://primary'' None False example_state_two))
     (user_clock ''0xAA'') = Some 12 \<and>
   map_option
     (\<lambda>r. map cr_clock
        (filter (\<lambda>c. cr_cnodeUserUUID c = ''uuid-on-secondary'') (ClockRecords (db (snd r)))))
     (processSync
        (example_env [example_fetched 12 [example_clock_record 11, example_clock_record 12] []])
        [''0xBB'', ''0xAA''] ''https://primary'' None False example_state_two) = Some [3, 11, 12]"
  by (simp add: example_defs processSync_defs user_clock_def returned_error_def
      returned_state_def Let_def)

subsection \<open>The failure gate on the concrete export\<close>

lemma example_attempt_rejected:
  assumes "Suc (fc ''0xAA'') < 3"
  shows "example_attempt \<lparr>locks = {}, db = example_db, failureCounts = fc, syncHistory = h,
                          exportRequests = rq\<rparr> =
     Some (Some (TransactionFailed (ContentFetchFailed 2 (Suc (fc ''0xAA'')) 3)),
           \<lparr>locks = {}, db = example_db, failureCounts = fc(''0xAA'' := Suc (fc ''0xAA'')),
            syncHistory = h @ [SyncFail ''0xAA''],
            exportRequests = rq @ [\<lparr>baseURL = ''https://primary'', wallet_public_key = [''0xAA''],
              clock_range_min = 4, source_endpoint = Some ''https://secondary1''\<rparr>]\<rparr>)"
  using assms
  by (simp add: example_attempt_def example_defs processSync_defs Let_def)

lemma example_attempt_committed:
  assumes "\<not> Suc (fc ''0xAA'') < 3"
  shows "\<exists>s'. example_attempt \<lparr>locks = {}, db = example_db, failureCounts = fc, syncHistory = h,
                               exportRequests = rq\<rparr> = Some (None, s') \<and>
     failureCounts s' ''0xAA'' = 0 \<and> user_clock ''0xAA'' s' = Some 5 \<and>
     length (Files (db s')) = 10 \<and>
     map multihash (filter skipped (Files (db s'))) = [''QmH'', ''QmC'']"
  using assms
  by (simp add: example_attempt_def example_defs processSync_defs user_clock_def Let_def)

lemma three_attempts:
  "\<exists>s1 s2 s3.
     example_attempt (example_state {}) =
       Some (Some (TransactionFailed (ContentFetchFailed 2 1 3)), s1) \<and>
     db s1 = example_db \<and> failureCounts s1 ''0xAA'' = 1 \<and>
     example_attempt s1 = Some (Some (TransactionFailed (ContentFetchFailed 2 2 3)), s2) \<and>
     db s2 = example_db \<and> failureCounts s2 ''0xAA'' = 2 \<and>
     example_attempt s2 = Some (None, s3) \<and>
     failureCounts s3 ''0xAA'' = 0 \<and> user_clock ''0xAA'' s3 = Some 5 \<and>
     length (Files (db s3)) = 10 \<and>
     map multihash (filter skipped (Files (db s3))) = [''QmH'', ''QmC'']"
proof -
  let ?rq = "\<lparr>baseURL = ''https://primary'', wallet_public_key = [''0xAA''],
              clock_range_min = 4, source_endpoint = Some ''https://secondary1''\<rparr>"
  let ?s1 = "\<lparr>locks = {}, db = example_db, failureCounts = (\<lambda>wallet. 0)(''0xAA'' := Suc 0),
              syncHistory = [SyncFail ''0xAA''], exportRequests = [?rq]\<rparr>"
  let ?s2 = "\<lparr>locks = {}, db = example_db,
              failureCounts = ((\<lambda>wallet. 0)(''0xAA'' := Suc 0))(''0xAA'' := Suc (Suc 0)),
              syncHistory = [SyncFail ''0xAA'', SyncFail ''0xAA''], exportRequests = [?rq, ?rq]\<rparr>"
  have a1: "example_attempt (example_state {}) =
              Some (Some (TransactionFailed (ContentFetchFailed 2 1 3)), ?s1)"
    using example_attempt_rejected [of "\<lambda>wallet. 0" "[]" "[]"]
    by (simp add: example_state_def)
  have a2: "example_attempt ?s1 = Some (Some (TransactionFailed (ContentFetchFailed 2 2 3)), ?s2)"
    using example_attempt_rejected [of "(\<lambda>wallet. 0)(''0xAA'' := Suc 0)" "[SyncFail ''0xAA'']" "[?rq]"]
    by simp
  from example_attempt_committed
    [of "((\<lambda>wallet. 0)(''0xAA'' := Suc 0))(''0xAA'' := Suc (Suc 0))"
        "[SyncFail ''0xAA'', SyncFail ''0xAA'']" "[?rq, ?rq]"]
  obtain s3 where a3: "example_attempt ?s2 = Some (None, s3)"
    and p3: "failureCounts s3 ''0xAA'' = 0" "user_clock ''0xAA'' s3 = Some 5"
      "length (Files (db s3)) = 10"
      "map multihash (filter skipped (Files (db s3))) = [''QmH'', ''QmC'']"
    by auto
  show ?thesis
    using a1 a2 a3 p3 by (intro exI [of _ ?s1] exI [of _ ?s2] exI [of _ s3]) simp
qed

text \<open>
  C2, as stated, fails. First, a job for \<^verbatim>\<open>0xAA\<close> and \<^verbatim>\<open>0xBB\<close> whose export holds
  \<^verbatim>\<open>0xAA\<close> at clock 5 without files, then \<^verbatim>\<open>0xBB\<close> at clock 5 with one file whose
  content no peer delivers: the call returns the content-fetch error, with the count 1
  below the threshold 3, but the transaction of \<^verbatim>\<open>0xAA\<close> was committed before, and its
  row is at clock 5 instead of 3. Second, a job for \<^verbatim>\<open>0xAA\<close> alone whose failure count
  is 2, on a database whose bulk inserts throw: the failing fetch brings the count to the
  threshold, the sync continues, the insert throws, and the call returns the database
  error with no file row inserted.
\<close>

theorem processSync_failure_gate_not_atomic:
  "user_clock ''0xAA'' (example_state {}) = Some 3 \<and>
   returned_error
     (processSync
        (example_env [example_fetched_for ''0xAA'' 5 [] [],
                      example_fetched_for ''0xBB'' 5 [] [example_file ''QmC'' Metadata]])
        [''0xAA'', ''0xBB''] ''https://primary'' None False (example_state {})) =
     Some (Some (TransactionFailed (ContentFetchFailed 1 1 3))) \<and>
   Option.bind
     (returned_state
        (processSync
           (example_env [example_fetched_for ''0xAA'' 5 [] [],
                         example_fetched_for ''0xBB'' 5 [] [example_file ''QmC'' Metadata]])
           [''0xAA'', ''0xBB''] ''https://primary'' None False (example_state {})))
     (user_clock ''0xAA'') = Some 5 \<and>
   returned_error
     (processSync
        (example_env_write_throws [example_fetched 5 [] [example_file ''QmC'' Metadata]])
        [''0xAA''] ''https://primary'' None False
        (example_state {}\<lparr>failureCounts := example_counts_two\<rparr>)) =
     Some (Some (TransactionFailed DatabaseError)) \<and>
   map_option (Files \<circ> db \<circ> snd)
     (processSync
        (example_env_write_throws [example_fetched 5 [] [example_file ''QmC'' Metadata]])
        [''0xAA''] ''https://primary'' None False
        (example_state {}\<lparr>failureCounts := example_counts_two\<rparr>)) = Some []"
  by (simp add: example_defs processSync_defs user_clock_def returned_error_def
      returned_state_def Let_def)

text \<open>
  C2, amended. The loop of the call reaches a user \<open>u\<close> of the export, of a requested
  wallet \<open>w\<close>; \<open>u\<close> passes the clock comparison, the statements on the user row do not
  throw, and the content fetch ends with a non-empty list \<open>failed\<close> of CIDs. Then
  \<open>failed\<close> holds the multihashes of the files of \<open>u\<close> whose save failed. If the
  incremented failure count of \<open>w\<close> is below the threshold, \<^verbatim>\<open>processSync\<close> returns the
  content-fetch error, the count stays incremented, and the tables are those that the
  transaction of \<open>u\<close> started from: what the earlier users of the export committed stays.
  If the incremented count has reached the threshold, then either the remaining
  statements succeed, the transaction commits, the count is 0, the user row carries the
  fetched clock, every file of \<open>u\<close> whose multihash is in \<open>failed\<close> has a newly inserted
  row with \<open>skipped\<close> set, and the call goes on with the remaining users; or a bulk insert
  or the commit throws, and the call returns the database error with the count at 0 and
  the tables that the transaction started from. In particular, three attempts on the
  ten-file export with two failing contents and the threshold 3 fail with count 1, fail
  with count 2, and then succeed with count 0, ten file rows and the two failed ones
  skipped.
\<close>

theorem processSync_failure_gate:
  "(reaches env ws ep bn force s pre u post local t \<and>
    fetched_walletPublicKey u = Some w \<and> w \<in> set ws \<and>
    local < fetched_clock u \<and>
    (local = - 1 \<or> clockRecords u = [] \<or> cr_clock (hd (clockRecords u)) = local + 1) \<and>
    db_statements env w \<noteq> UserStatementThrows \<and>
    fetchContent env (userReplicaSet env w bn)
      (filter (\<lambda>f. ftype f \<in> set TrackTypes) (files u))
      (filter (\<lambda>f. ftype f \<in> set NonTrackTypes) (files u)) = Some failed \<and>
    failed \<noteq> [] \<longrightarrow>
    set failed =
      set (map multihash (filter (\<lambda>f. \<not> saved env (userReplicaSet env w bn) f) (files u))) \<and>
    (Suc (failureCounts t w) < SyncRequestMaxUserFailureCountBeforeSkip env \<longrightarrow>
       (\<exists>s'. processSync env ws ep bn force s =
                Some (Some (TransactionFailed (ContentFetchFailed (length failed)
                        (Suc (failureCounts t w)) (SyncRequestMaxUserFailureCountBeforeSkip env))), s') \<and>
              failureCounts s' w = Suc (failureCounts t w) \<and> db s' = db t)) \<and>
    (SyncRequestMaxUserFailureCountBeforeSkip env \<le> Suc (failureCounts t w) \<longrightarrow>
       (db_statements env w = DbOk \<longrightarrow>
          (\<exists>t'. syncUser env ws bn local (lastRedisKey ws) u t = Some (None, t') \<and>
                 failureCounts t' w = 0 \<and>
                 user_clock w t' = Some (fetched_clock u) \<and>
                 (\<forall>f\<in>set (files u). multihash f \<in> set failed \<longrightarrow>
                    (\<exists>r\<in>set (drop (length (Files (db t))) (Files (db t'))).
                       fileUUID r = fileUUID f \<and> multihash r = multihash f \<and> skipped r)) \<and>
                 processSync env ws ep bn force s =
                   catchFinally ws (syncUsers env ws bn local (lastRedisKey ws) post t'))) \<and>
       (db_statements env w = WriteThrows \<longrightarrow>
          (\<exists>s'. processSync env ws ep bn force s =
                   Some (Some (TransactionFailed DatabaseError), s') \<and>
                 failureCounts s' w = 0 \<and> db s' = db t)))) \<and>
   (\<exists>s1 s2 s3.
     example_attempt (example_state {}) =
       Some (Some (TransactionFailed (ContentFetchFailed 2 1 3)), s1) \<and>
     db s1 = example_db \<and> failureCounts s1 ''0xAA'' = 1 \<and>
     example_attempt s1 = Some (Some (TransactionFailed (ContentFetchFailed 2 2 3)), s2) \<and>
     db s2 = example_db \<and> failureCounts s2 ''0xAA'' = 2 \<and>
     example_attempt s2 = Some (None, s3) \<and>
     failureCounts s3 ''0xAA'' = 0 \<and> user_clock ''0xAA'' s3 = Some 5 \<and>
     length (Files (db s3)) = 10 \<and>
     map multihash (filter skipped (Files (db s3))) = [''QmH'', ''QmC''])"
  apply (rule conjI)
   apply (rule impI)
   apply (elim conjE)
   apply (rule failure_gate_general, assumption+)
  apply (rule three_attempts)
  done

theorem processSync_failure_gate_witness:
  "reaches
     (example_env [example_fetched 5 [example_clock_record 4, example_clock_record 5] example_files])
     [''0xAA''] ''https://primary'' None False (example_state {}) []
     (example_fetched 5 [example_clock_record 4, example_clock_record 5] example_files) [] 3
     (example_state {}\<lparr>locks := {''node_sync:0xAA''},
        exportRequests := [\<lparr>baseURL = ''https://primary'', wallet_public_key = [''0xAA''],
          clock_range_min = 4, source_endpoint = Some ''https://secondary1''\<rparr>]\<rparr>) \<and>
   fetchContent
     (example_env [example_fetched 5 [example_clock_record 4, example_clock_record 5] example_files])
     [''https://primary'', ''https://secondary2'']
     (filter (\<lambda>f. ftype f \<in> set TrackTypes) example_files)
     (filter (\<lambda>f. ftype f \<in> set NonTrackTypes) example_files) = Some [''QmC'', ''QmH''] \<and>
   (\<exists>s'. example_attempt (example_state {}) =
        Some (Some (TransactionFailed (ContentFetchFailed 2 1 3)), s') \<and>
      failureCounts s' ''0xAA'' = 1 \<and> db s' = example_db)"
proof -
  let ?u = "example_fetched 5 [example_clock_record 4, example_clock_record 5] example_files"
  let ?env = "example_env [?u]"
  let ?t = "example_state {}\<lparr>locks := {''node_sync:0xAA''},
        exportRequests := [\<lparr>baseURL = ''https://primary'', wallet_public_key = [''0xAA''],
          clock_range_min = 4, source_endpoint = Some ''https://secondary1''\<rparr>]\<rparr>"
  have r: "reaches ?env [''0xAA''] ''https://primary'' None False (example_state {}) [] ?u [] 3 ?t"
    by (simp add: reaches_def example_env_def example_state_def example_db_def example_user_def
        clockBaseline_def firstWallet_def findCNodeUser_def exportQueryParams_def
        getNodeSyncRedisKey_def lastRedisKey_def)
  have rs: "userReplicaSet ?env ''0xAA'' None = [''https://primary'', ''https://secondary2'']"
    by (simp add: userReplicaSet_def example_env_def example_replica_set_def)
  have fu: "files ?u = example_files"
    by (simp add: example_fetched_def)
  have fc: "fetchContent ?env [''https://primary'', ''https://secondary2'']
     (filter (\<lambda>f. ftype f \<in> set TrackTypes) example_files)
     (filter (\<lambda>f. ftype f \<in> set NonTrackTypes) example_files) = Some [''QmC'', ''QmH'']"
    by (simp add: example_defs fetchContent_def saveInBatches.simps saveTrackFile_def
        saveNonTrackFile_def set_add_def TrackTypes_def NonTrackTypes_def)
  have h: "fetched_walletPublicKey ?u = Some ''0xAA'' \<and> ''0xAA'' \<in> set [''0xAA''] \<and>
           3 < fetched_clock ?u \<and>
           ((3::int) = - 1 \<or> clockRecords ?u = [] \<or> cr_clock (hd (clockRecords ?u)) = 3 + 1) \<and>
           db_statements ?env ''0xAA'' \<noteq> UserStatementThrows \<and>
           fetchContent ?env (userReplicaSet ?env ''0xAA'' None)
             (filter (\<lambda>f. ftype f \<in> set TrackTypes) (files ?u))
             (filter (\<lambda>f. ftype f \<in> set NonTrackTypes) (files ?u)) = Some [''QmC'', ''QmH''] \<and>
           [''QmC'', ''QmH''] \<noteq> []"
    unfolding rs fu fc
    by (simp add: example_fetched_def example_env_def example_clock_record_def example_db_ok_def)
  have c: "failureCounts ?t ''0xAA'' = 0" "db ?t = example_db"
    "SyncRequestMaxUserFailureCountBeforeSkip ?env = 3"
    by (simp_all add: example_state_def example_env_def)
  note g = processSync_failure_gate [THEN conjunct1, rule_format, OF conjI [OF r h],
      THEN conjunct2, THEN conjunct1, unfolded c]
  have "\<exists>s'. processSync ?env [''0xAA''] ''https://primary'' None False (example_state {}) =
       Some (Some (TransactionFailed (ContentFetchFailed 2 1 3)), s') \<and>
    failureCounts s' ''0xAA'' = 1 \<and> db s' = example_db"
    using g by (simp add: numeral_2_eq_2)
  then show ?thesis
    using r fc unfolding example_attempt_def by blast
qed

subsection \<open>The early return of the acquisition loop\<close>

text \<open>
  C3. Two wallets are requested and the lock of the second is already held. The call sets
  the lock of the first wallet, finds the second one held, and returns the error from
  inside the acquisition loop, before the \<^verbatim>\<open>try\<close> block whose \<^verbatim>\<open>finally\<close> releases the
  locks: the lock it acquired for the first wallet is still held in the returned state.
\<close>

theorem processSync_early_return_keeps_lock:
  "getNodeSyncRedisKey ''0xAA'' \<notin> locks (example_state {getNodeSyncRedisKey ''0xBB''}) \<and>
   processSync env [''0xAA'', ''0xBB''] ep bn force (example_state {getNodeSyncRedisKey ''0xBB''}) =
     Some (Some (SyncInProgress ''0xBB''),
           example_state {getNodeSyncRedisKey ''0xAA'', getNodeSyncRedisKey ''0xBB''})"
  by (simp add: processSync_def example_state_def getLock_def setLock_def Let_def)

subsection \<open>The baseline and the export request\<close>

lemma deleteAll_removes:
  assumes "CNodeUsers d w = Some cu"
  shows "CNodeUsers (deleteAllCNodeUserDataFromDB (Some w) d) w = None"
    and "\<forall>r\<in>set (ClockRecords (deleteAllCNodeUserDataFromDB (Some w) d)).
           cr_cnodeUserUUID r \<noteq> cnodeUserUUID cu"
    and "\<forall>r\<in>set (Files (deleteAllCNodeUserDataFromDB (Some w) d)).
           f_cnodeUserUUID r \<noteq> cnodeUserUUID cu"
    and "\<forall>r\<in>set (Tracks (deleteAllCNodeUserDataFromDB (Some w) d)).
           t_cnodeUserUUID r \<noteq> cnodeUserUUID cu"
    and "\<forall>r\<in>set (AudiusUsers (deleteAllCNodeUserDataFromDB (Some w) d)).
           au_cnodeUserUUID r \<noteq> cnodeUserUUID cu"
  using assms by (simp_all add: deleteAllCNodeUserDataFromDB_def)

lemma deleteAll_other_users:
  "v \<noteq> w \<Longrightarrow> CNodeUsers (deleteAllCNodeUserDataFromDB (Some w) d) v = CNodeUsers d v"
  by (simp add: deleteAllCNodeUserDataFromDB_def split: option.splits)

text \<open>
  With the locks acquired, the call is: the thrown baseline statement, or the handling of
  the answer to the request built from the baseline, started on the tables that the
  baseline statement leaves.
\<close>

lemma processSync_baseline:
  assumes d: "distinct ws" and f: "\<forall>v\<in>set ws. getNodeSyncRedisKey v \<notin> locks s"
  shows "processSync env ws ep bn force s =
     (if baselineStatementThrows env
      then Some (Some DatabaseError, s\<lparr>syncHistory := syncHistory s @ map SyncFail ws\<rparr>)
      else catchFinally ws
             (handleExport env ws bn
                (if force then - 1
                 else case findCNodeUser (firstWallet ws) (db s) of
                        None \<Rightarrow> - 1 | Some cnodeUser \<Rightarrow> clock cnodeUser)
                (lastRedisKey ws)
                (fetchExport env (exportQueryParams env ep ws
                   (if force then - 1
                    else case findCNodeUser (firstWallet ws) (db s) of
                           None \<Rightarrow> - 1 | Some cnodeUser \<Rightarrow> clock cnodeUser)))
                (s\<lparr>db := (if force then deleteAllCNodeUserDataFromDB (firstWallet ws) (db s)
                           else db s),
                   locks := locks s \<union> getNodeSyncRedisKey ` set ws,
                   exportRequests := exportRequests s @
                     [exportQueryParams env ep ws
                        (if force then - 1
                         else case findCNodeUser (firstWallet ws) (db s) of
                                None \<Rightarrow> - 1 | Some cnodeUser \<Rightarrow> clock cnodeUser)]\<rparr>)))"
  unfolding processSync_try_block [OF d f] clockBaseline_eq
  by simp

lemma processSync_baseline_requests:
  assumes d: "distinct ws" and f: "\<forall>v\<in>set ws. getNodeSyncRedisKey v \<notin> locks s"
    and p: "processSync env ws ep bn force s = Some (r, s')"
  shows "exportRequests s' = exportRequests s @
     (if baselineStatementThrows env then []
      else [exportQueryParams env ep ws
              (if force then - 1
               else case findCNodeUser (firstWallet ws) (db s) of
                      None \<Rightarrow> - 1 | Some cnodeUser \<Rightarrow> clock cnodeUser)])"
proof (cases "baselineStatementThrows env")
  case True
  with p show ?thesis
    unfolding processSync_baseline [OF d f] by auto
next
  case False
  with p obtain t where
    h: "handleExport env ws bn
          (if force then - 1
           else case findCNodeUser (firstWallet ws) (db s) of
                  None \<Rightarrow> - 1 | Some cnodeUser \<Rightarrow> clock cnodeUser)
          (lastRedisKey ws)
          (fetchExport env (exportQueryParams env ep ws
             (if force then - 1
              else case findCNodeUser (firstWallet ws) (db s) of
                     None \<Rightarrow> - 1 | Some cnodeUser \<Rightarrow> clock cnodeUser)))
          (s\<lparr>db := (if force then deleteAllCNodeUserDataFromDB (firstWallet ws) (db s)
                     else db s),
             locks := locks s \<union> getNodeSyncRedisKey ` set ws,
             exportRequests := exportRequests s @
               [exportQueryParams env ep ws
                  (if force then - 1
                   else case findCNodeUser (firstWallet ws) (db s) of
                          None \<Rightarrow> - 1 | Some cnodeUser \<Rightarrow> clock cnodeUser)]\<rparr>) = Some (r, t)"
    and e: "exportRequests s' = exportRequests t"
    unfolding processSync_baseline [OF d f]
    by (auto dest!: catchFinally_Some)
  from handleExport_exportRequests [OF h] e False show ?thesis by simp
qed

lemma processSync_baseline_no_users:
  assumes d: "distinct ws" and f: "\<forall>v\<in>set ws. getNodeSyncRedisKey v \<notin> locks s"
    and nt: "\<not> baselineStatementThrows env"
    and nb: "\<forall>u us. fetchExport env (exportQueryParams env ep ws
               (if force then - 1
                else case findCNodeUser (firstWallet ws) (db s) of
                       None \<Rightarrow> - 1 | Some cnodeUser \<Rightarrow> clock cnodeUser)) \<noteq> ExportBody (u # us)"
  shows "\<exists>r s'. processSync env ws ep bn force s = Some (r, s') \<and>
           db s' = (if force then deleteAllCNodeUserDataFromDB (firstWallet ws) (db s) else db s) \<and>
           locks s' = locks s"
proof -
  let ?local = "if force then - 1
                else case findCNodeUser (firstWallet ws) (db s) of
                       None \<Rightarrow> - 1 | Some cnodeUser \<Rightarrow> clock cnodeUser"
  have free: "locks s \<union> getNodeSyncRedisKey ` set ws - getNodeSyncRedisKey ` set ws = locks s"
    using f by auto
  show ?thesis
  proof (cases "fetchExport env (exportQueryParams env ep ws ?local)")
    case (ExportBody users)
    with nb have "users = []" by (cases users) auto
    with ExportBody nt show ?thesis
      unfolding processSync_baseline [OF d f]
      by (simp add: handleExport_def catchFinally_simps releaseLocks_fields free)
  qed (use nt in \<open>simp_all add: processSync_baseline [OF d f] handleExport_def catchFinally_simps
        releaseLocks_fields recordSyncFails_fields free\<close>)
qed

lemma processSync_returns:
  assumes d: "distinct ws" and f: "\<forall>v\<in>set ws. getNodeSyncRedisKey v \<notin> locks s"
    and pos: "0 < FileSaveMaxConcurrency env"
  shows "\<exists>r s'. processSync env ws ep bn force s = Some (r, s')"
proof (cases "baselineStatementThrows env")
  case True
  then show ?thesis unfolding processSync_baseline [OF d f] by simp
next
  case False
  let ?local = "if force then - 1
                else case findCNodeUser (firstWallet ws) (db s) of
                       None \<Rightarrow> - 1 | Some cnodeUser \<Rightarrow> clock cnodeUser"
  from handleExport_returns [OF pos]
  obtain r t where "handleExport env ws bn ?local (lastRedisKey ws)
          (fetchExport env (exportQueryParams env ep ws ?local))
          (s\<lparr>db := (if force then deleteAllCNodeUserDataFromDB (firstWallet ws) (db s) else db s),
             locks := locks s \<union> getNodeSyncRedisKey ` set ws,
             exportRequests := exportRequests s @ [exportQueryParams env ep ws ?local]\<rparr>)
          = Some (r, t)"
    by blast
  with False show ?thesis
    unfolding processSync_baseline [OF d f]
    by (cases r) (simp_all add: catchFinally_simps)
qed

text \<open>
  C4. The wallets are distinct and their locks free, so that the call enters the
  \<^verbatim>\<open>try\<close> block. Let the baseline be -1 under \<^verbatim>\<open>forceResync\<close>, and otherwise the
  clock of the stored user of the first wallet, or -1 when there is none; let the tables
  be those left by \<^verbatim>\<open>deleteAllCNodeUserDataFromDB\<close> for the first wallet under
  \<^verbatim>\<open>forceResync\<close>, and the tables of the start otherwise; and let the request be the
  export request built from the baseline. Then \<^verbatim>\<open>clock_range_min\<close> of the request is
  the baseline plus one, and \<^verbatim>\<open>processSync\<close> is the handling of the answer to that
  request, started on those tables with the request recorded, followed by the
  \<^verbatim>\<open>catch\<close> and \<^verbatim>\<open>finally\<close> blocks; unless the baseline statement throws, in which
  case the call returns the database error, the tables are untouched and no request is
  sent. A call that returns has sent exactly that one request (none when the baseline
  statement threw). When the answer holds no user the call returns with exactly those
  tables: the truncation is kept even when the export fails. The call returns whenever
  the batch size is positive. Under \<^verbatim>\<open>forceResync\<close> the user row of the first wallet
  and every row that carries its user id are gone from those tables.
\<close>

theorem processSync_clock_baseline:
  "distinct ws \<and> (\<forall>v\<in>set ws. getNodeSyncRedisKey v \<notin> locks s) \<longrightarrow>
   (let wallet = firstWallet ws;
        localMaxClockVal =
          (if force then - 1
           else case findCNodeUser wallet (db s) of
                  None \<Rightarrow> - 1 | Some cnodeUser \<Rightarrow> clock cnodeUser);
        tables = (if force then deleteAllCNodeUserDataFromDB wallet (db s) else db s);
        request = exportQueryParams env ep ws localMaxClockVal
    in clock_range_min request = localMaxClockVal + 1 \<and>
       processSync env ws ep bn force s =
         (if baselineStatementThrows env
          then Some (Some DatabaseError, s\<lparr>syncHistory := syncHistory s @ map SyncFail ws\<rparr>)
          else catchFinally ws
                 (handleExport env ws bn localMaxClockVal (lastRedisKey ws) (fetchExport env request)
                    (s\<lparr>db := tables,
                       locks := locks s \<union> getNodeSyncRedisKey ` set ws,
                       exportRequests := exportRequests s @ [request]\<rparr>))) \<and>
       (\<forall>r s'. processSync env ws ep bn force s = Some (r, s') \<longrightarrow>
          exportRequests s' =
            exportRequests s @ (if baselineStatementThrows env then [] else [request])) \<and>
       (\<not> baselineStatementThrows env \<and>
        (\<forall>u us. fetchExport env request \<noteq> ExportBody (u # us)) \<longrightarrow>
          (\<exists>r s'. processSync env ws ep bn force s = Some (r, s') \<and>
                  db s' = tables \<and> locks s' = locks s)) \<and>
       (0 < FileSaveMaxConcurrency env \<longrightarrow>
          (\<exists>r s'. processSync env ws ep bn force s = Some (r, s'))) \<and>
       (force \<longrightarrow>
          (\<forall>w cnodeUser. wallet = Some w \<and> CNodeUsers (db s) w = Some cnodeUser \<longrightarrow>
             CNodeUsers tables w = None \<and>
             (\<forall>r\<in>set (ClockRecords tables). cr_cnodeUserUUID r \<noteq> cnodeUserUUID cnodeUser) \<and>
             (\<forall>r\<in>set (Files tables). f_cnodeUserUUID r \<noteq> cnodeUserUUID cnodeUser) \<and>
             (\<forall>r\<in>set (Tracks tables). t_cnodeUserUUID r \<noteq> cnodeUserUUID cnodeUser) \<and>
             (\<forall>r\<in>set (AudiusUsers tables). au_cnodeUserUUID r \<noteq> cnodeUserUUID cnodeUser))))"
proof (rule impI, elim conjE)
  assume d: "distinct ws" and f: "\<forall>v\<in>set ws. getNodeSyncRedisKey v \<notin> locks s"
  have del: "CNodeUsers (deleteAllCNodeUserDataFromDB (firstWallet ws) (db s)) w = None \<and>
      (\<forall>r\<in>set (ClockRecords (deleteAllCNodeUserDataFromDB (firstWallet ws) (db s))).
          cr_cnodeUserUUID r \<noteq> cnodeUserUUID cu) \<and>
      (\<forall>r\<in>set (Files (deleteAllCNodeUserDataFromDB (firstWallet ws) (db s))).
          f_cnodeUserUUID r \<noteq> cnodeUserUUID cu) \<and>
      (\<forall>r\<in>set (Tracks (deleteAllCNodeUserDataFromDB (firstWallet ws) (db s))).
          t_cnodeUserUUID r \<noteq> cnodeUserUUID cu) \<and>
      (\<forall>r\<in>set (AudiusUsers (deleteAllCNodeUserDataFromDB (firstWallet ws) (db s))).
          au_cnodeUserUUID r \<noteq> cnodeUserUUID cu)"
    if "firstWallet ws = Some w" "CNodeUsers (db s) w = Some cu" for w cu
    unfolding that(1) using deleteAll_removes [OF that(2)] by blast
  show "let wallet = firstWallet ws;
        localMaxClockVal =
          (if force then - 1
           else case findCNodeUser wallet (db s) of
                  None \<Rightarrow> - 1 | Some cnodeUser \<Rightarrow> clock cnodeUser);
        tables = (if force then deleteAllCNodeUserDataFromDB wallet (db s) else db s);
        request = exportQueryParams env ep ws localMaxClockVal
    in clock_range_min request = localMaxClockVal + 1 \<and>
       processSync env ws ep bn force s =
         (if baselineStatementThrows env
          then Some (Some DatabaseError, s\<lparr>syncHistory := syncHistory s @ map SyncFail ws\<rparr>)
          else catchFinally ws
                 (handleExport env ws bn localMaxClockVal (lastRedisKey ws) (fetchExport env request)
                    (s\<lparr>db := tables,
                       locks := locks s \<union> getNodeSyncRedisKey ` set ws,
                       exportRequests := exportRequests s @ [request]\<rparr>))) \<and>
       (\<forall>r s'. processSync env ws ep bn force s = Some (r, s') \<longrightarrow>
          exportRequests s' =
            exportRequests s @ (if baselineStatementThrows env then [] else [request])) \<and>
       (\<not> baselineStatementThrows env \<and>
        (\<forall>u us. fetchExport env request \<noteq> ExportBody (u # us)) \<longrightarrow>
          (\<exists>r s'. processSync env ws ep bn force s = Some (r, s') \<and>
                  db s' = tables \<and> locks s' = locks s)) \<and>
       (0 < FileSaveMaxConcurrency env \<longrightarrow>
          (\<exists>r s'. processSync env ws ep bn force s = Some (r, s'))) \<and>
       (force \<longrightarrow>
          (\<forall>w cnodeUser. wallet = Some w \<and> CNodeUsers (db s) w = Some cnodeUser \<longrightarrow>
             CNodeUsers tables w = None \<and>
             (\<forall>r\<in>set (ClockRecords tables). cr_cnodeUserUUID r \<noteq> cnodeUserUUID cnodeUser) \<and>
             (\<forall>r\<in>set (Files tables). f_cnodeUserUUID r \<noteq> cnodeUserUUID cnodeUser) \<and>
             (\<forall>r\<in>set (Tracks tables). t_cnodeUserUUID r \<noteq> cnodeUserUUID cnodeUser) \<and>
             (\<forall>r\<in>set (AudiusUsers tables). au_cnodeUserUUID r \<noteq> cnodeUserUUID cnodeUser)))"
    unfolding Let_def
  proof (intro conjI)
    show "clock_range_min (exportQueryParams env ep ws
            (if force then - 1
             else case findCNodeUser (firstWallet ws) (db s) of
                    None \<Rightarrow> - 1 | Some cnodeUser \<Rightarrow> clock cnodeUser)) =
          (if force then - 1
           else case findCNodeUser (firstWallet ws) (db s) of
                  None \<Rightarrow> - 1 | Some cnodeUser \<Rightarrow> clock cnodeUser) + 1"
      by (simp add: exportQueryParams_def)
  next
    show "processSync env ws ep bn force s =
     (if baselineStatementThrows env
      then Some (Some DatabaseError, s\<lparr>syncHistory := syncHistory s @ map SyncFail ws\<rparr>)
      else catchFinally ws
             (handleExport env ws bn
                (if force then - 1
                 else case findCNodeUser (firstWallet ws) (db s) of
                        None \<Rightarrow> - 1 | Some cnodeUser \<Rightarrow> clock cnodeUser)
                (lastRedisKey ws)
                (fetchExport env (exportQueryParams env ep ws
                   (if force then - 1
                    else case findCNodeUser (firstWallet ws) (db s) of
                           None \<Rightarrow> - 1 | Some cnodeUser \<Rightarrow> clock cnodeUser)))
                (s\<lparr>db := (if force then deleteAllCNodeUserDataFromDB (firstWallet ws) (db s)
                           else db s),
                   locks := locks s \<union> getNodeSyncRedisKey ` set ws,
                   exportRequests := exportRequests s @
                     [exportQueryParams env ep ws
                        (if force then - 1
                         else case findCNodeUser (firstWallet ws) (db s) of
                                None \<Rightarrow> - 1 | Some cnodeUser \<Rightarrow> clock cnodeUser)]\<rparr>)))"
      by (rule processSync_baseline [OF d f])
  next
    show "\<forall>r s'. processSync env ws ep bn force s = Some (r, s') \<longrightarrow>
       exportRequests s' = exportRequests s @
         (if baselineStatementThrows env then []
          else [exportQueryParams env ep ws
                  (if force then - 1
                   else case findCNodeUser (firstWallet ws) (db s) of
                          None \<Rightarrow> - 1 | Some cnodeUser \<Rightarrow> clock cnodeUser)])"
      using processSync_baseline_requests [OF d f] by blast
  next
    show "\<not> baselineStatementThrows env \<and>
        (\<forall>u us. fetchExport env (exportQueryParams env ep ws
               (if force then - 1
                else case findCNodeUser (firstWallet ws) (db s) of
                       None \<Rightarrow> - 1 | Some cnodeUser \<Rightarrow> clock cnodeUser)) \<noteq> ExportBody (u # us)) \<longrightarrow>
          (\<exists>r s'. processSync env ws ep bn force s = Some (r, s') \<and>
                  db s' = (if force then deleteAllCNodeUserDataFromDB (firstWallet ws) (db s) else db s) \<and>
                  locks s' = locks s)"
      using processSync_baseline_no_users [OF d f] by blast
  next
    show "0 < FileSaveMaxConcurrency env \<longrightarrow>
          (\<exists>r s'. processSync env ws ep bn force s = Some (r, s'))"
      using processSync_returns [OF d f] by blast
  next
    show "force \<longrightarrow>
          (\<forall>w cnodeUser. firstWallet ws = Some w \<and> CNodeUsers (db s) w = Some cnodeUser \<longrightarrow>
             CNodeUsers (if force then deleteAllCNodeUserDataFromDB (firstWallet ws) (db s) else db s) w = None \<and>
             (\<forall>r\<in>set (ClockRecords (if force then deleteAllCNodeUserDataFromDB (firstWallet ws) (db s) else db s)).
                 cr_cnodeUserUUID r \<noteq> cnodeUserUUID cnodeUser) \<and>
             (\<forall>r\<in>set (Files (if force then deleteAllCNodeUserDataFromDB (firstWallet ws) (db s) else db s)).
                 f_cnodeUserUUID r \<noteq> cnodeUserUUID cnodeUser) \<and>
             (\<forall>r\<in>set (Tracks (if force then deleteAllCNodeUserDataFromDB (firstWallet ws) (db s) else db s)).
                 t_cnodeUserUUID r \<noteq> cnodeUserUUID cnodeUser) \<and>
             (\<forall>r\<in>set (AudiusUsers (if force then deleteAllCNodeUserDataFromDB (firstWallet ws) (db s) else db s)).
                 au_cnodeUserUUID r \<noteq> cnodeUserUUID cnodeUser))"
    proof (intro impI allI, elim conjE)
      fix w cu
      assume "force" "firstWallet ws = Some w" "CNodeUsers (db s) w = Some cu"
      with del [of w cu] show
        "CNodeUsers (if force then deleteAllCNodeUserDataFromDB (firstWallet ws) (db s) else db s) w = None \<and>
             (\<forall>r\<in>set (ClockRecords (if force then deleteAllCNodeUserDataFromDB (firstWallet ws) (db s) else db s)).
                 cr_cnodeUserUUID r \<noteq> cnodeUserUUID cu) \<and>
             (\<forall>r\<in>set (Files (if force then deleteAllCNodeUserDataFromDB (firstWallet ws) (db s) else db s)).
                 f_cnodeUserUUID r \<noteq> cnodeUserUUID cu) \<and>
             (\<forall>r\<in>set (Tracks (if force then deleteAllCNodeUserDataFromDB (firstWallet ws) (db s) else db s)).
                 t_cnodeUserUUID r \<noteq> cnodeUserUUID cu) \<and>
             (\<forall>r\<in>set (AudiusUsers (if force then deleteAllCNodeUserDataFromDB (firstWallet ws) (db s) else db s)).
                 au_cnodeUserUUID r \<noteq> cnodeUserUUID cu)"
        by simp
    qed
  qed
qed

theorem processSync_clock_baseline_witness:
  "user_clock ''0xAA'' example_state_two = Some 3 \<and>
   (\<exists>s'. processSync (example_env []) [''0xAA''] ''https://primary'' None True example_state_two =
            Some (None, s') \<and>
         user_clock ''0xAA'' s' = None \<and> user_clock ''0xBB'' s' = Some 10 \<and>
         map cr_cnodeUserUUID (ClockRecords (db s')) = [''uuid-BB-on-secondary''] \<and>
         map multihash (Files (db s')) = [''QmY''] \<and>
         map clock_range_min (exportRequests s') = [0]) \<and>
   (\<exists>s'. processSync (example_env []) [''0xAA''] ''https://primary'' None False example_state_two =
            Some (None, s') \<and>
         db s' = example_db_two \<and>
         map clock_range_min (exportRequests s') = [4]) \<and>
   (\<exists>s'. processSync (example_env_baseline_throws []) [''0xAA''] ''https://primary'' None True
            example_state_two = Some (Some DatabaseError, s') \<and>
         db s' = example_db_two \<and> exportRequests s' = [])"
proof -
  have h: "distinct [''0xAA''] \<and>
           (\<forall>v\<in>set [''0xAA'']. getNodeSyncRedisKey v \<notin> locks example_state_two)"
    by (simp add: example_state_two_def)
  note ev = example_defs catchFinally_def handleExport_def releaseLocks_def recordSyncFails_def
    recordSyncFail_def removeLock_def exportQueryParams_def firstWallet_def findCNodeUser_def
    deleteAllCNodeUserDataFromDB_def getNodeSyncRedisKey_def lastRedisKey_def user_clock_def
  have a: "\<exists>s'. processSync (example_env []) [''0xAA''] ''https://primary'' None True example_state_two =
            Some (None, s') \<and>
         user_clock ''0xAA'' s' = None \<and> user_clock ''0xBB'' s' = Some 10 \<and>
         map cr_cnodeUserUUID (ClockRecords (db s')) = [''uuid-BB-on-secondary''] \<and>
         map multihash (Files (db s')) = [''QmY''] \<and>
         map clock_range_min (exportRequests s') = [0]"
    unfolding processSync_clock_baseline [where ws = "[''0xAA'']" and s = example_state_two
        and force = True and env = "example_env []" and ep = "''https://primary''" and bn = None,
        unfolded Let_def, rule_format, OF h, THEN conjunct2, THEN conjunct1]
    by (simp add: ev)
  have b: "\<exists>s'. processSync (example_env []) [''0xAA''] ''https://primary'' None False example_state_two =
            Some (None, s') \<and>
         db s' = example_db_two \<and>
         map clock_range_min (exportRequests s') = [4]"
    unfolding processSync_clock_baseline [where ws = "[''0xAA'']" and s = example_state_two
        and force = False and env = "example_env []" and ep = "''https://primary''" and bn = None,
        unfolded Let_def, rule_format, OF h, THEN conjunct2, THEN conjunct1]
    by (simp add: ev)
  have c: "\<exists>s'. processSync (example_env_baseline_throws []) [''0xAA''] ''https://primary'' None True
            example_state_two = Some (Some DatabaseError, s') \<and>
         db s' = example_db_two \<and> exportRequests s' = []"
    unfolding processSync_clock_baseline [where ws = "[''0xAA'']" and s = example_state_two
        and force = True and env = "example_env_baseline_throws []" and ep = "''https://primary''"
        and bn = None,
        unfolded Let_def, rule_format, OF h, THEN conjunct2, THEN conjunct1]
    by (simp add: ev)
  have u: "user_clock ''0xAA'' example_state_two = Some 3"
    by (simp add: ev)
  from u a b c show ?thesis by blast
qed

subsection \<open>An export without clock records\<close>





subsection \<open>Several wallets in one job\<close>

lemma deleteAll_keeps_rows:
  assumes "CNodeUsers d w = Some cu"
  shows "\<forall>r\<in>set (ClockRecords d). cr_cnodeUserUUID r \<noteq> cnodeUserUUID cu \<longrightarrow>
           r \<in> set (ClockRecords (deleteAllCNodeUserDataFromDB (Some w) d))"
    and "\<forall>r\<in>set (Files d). f_cnodeUserUUID r \<noteq> cnodeUserUUID cu \<longrightarrow>
           r \<in> set (Files (deleteAllCNodeUserDataFromDB (Some w) d))"
    and "\<forall>r\<in>set (Tracks d). t_cnodeUserUUID r \<noteq> cnodeUserUUID cu \<longrightarrow>
           r \<in> set (Tracks (deleteAllCNodeUserDataFromDB (Some w) d))"
    and "\<forall>r\<in>set (AudiusUsers d). au_cnodeUserUUID r \<noteq> cnodeUserUUID cu \<longrightarrow>
           r \<in> set (AudiusUsers (deleteAllCNodeUserDataFromDB (Some w) d))"
  using assms by (simp_all add: deleteAllCNodeUserDataFromDB_def)

lemma deleteAll_absent:
  "CNodeUsers d w = None \<Longrightarrow> deleteAllCNodeUserDataFromDB (Some w) d = d"
  by (simp add: deleteAllCNodeUserDataFromDB_def)

text \<open>The row that the secondary holds for another wallet of the job does not change the request.\<close>

lemma processSync_other_wallet_row:
  assumes d: "distinct (w # rest)"
    and f: "\<forall>v\<in>set (w # rest). getNodeSyncRedisKey v \<notin> locks s"
    and x: "x \<noteq> w"
    and p: "processSync env (w # rest) ep bn force
              (s\<lparr>db := (db s)\<lparr>CNodeUsers := (CNodeUsers (db s))(x := row)\<rparr>\<rparr>) = Some (r, s')"
  shows "exportRequests s' = exportRequests s @
     (if baselineStatementThrows env then []
      else [exportQueryParams env ep (w # rest)
              (if force then - 1
               else case CNodeUsers (db s) w of
                      None \<Rightarrow> - 1 | Some cnodeUser \<Rightarrow> clock cnodeUser)])"
proof -
  let ?s = "s\<lparr>db := (db s)\<lparr>CNodeUsers := (CNodeUsers (db s))(x := row)\<rparr>\<rparr>"
  have f': "\<forall>v\<in>set (w # rest). getNodeSyncRedisKey v \<notin> locks ?s"
    using f by simp
  from processSync_baseline_requests [OF d f' p] x show ?thesis
    by (simp add: firstWallet_def findCNodeUser_def)
qed

text \<open>
  C10. The job names the wallets \<open>w # v # rest\<close>, distinct and with free locks. The
  acquisition loop sets the lock of every wallet of the list. The baseline is -1 under
  \<^verbatim>\<open>forceResync\<close> and otherwise the stored clock of \<open>w\<close> alone (-1 without a row); the
  request names the whole list and its \<^verbatim>\<open>clock_range_min\<close> is that baseline plus one;
  \<^verbatim>\<open>processSync\<close> is the handling of the answer to that request, started with all the
  locks held on the tables truncated for \<open>w\<close> alone, followed by the \<^verbatim>\<open>catch\<close> and
  \<^verbatim>\<open>finally\<close> blocks (or the database error when the baseline statement throws). A
  call that returns has sent that one request and holds none of the locks of the list;
  when the answer holds no user it returns with exactly the truncated tables. In those
  tables the row of \<open>w\<close> is gone under \<^verbatim>\<open>forceResync\<close>, the user row of every other
  wallet is as before, and so is every row that does not carry the user id of \<open>w\<close>.
  Whatever row the secondary holds for another wallet of the list, the request sent is
  the same.
\<close>

theorem processSync_first_wallet_only:
  "distinct (w # v # rest) \<and>
   (\<forall>x\<in>set (w # v # rest). getNodeSyncRedisKey x \<notin> locks s) \<longrightarrow>
   (let walletPublicKeys = w # v # rest;
        localMaxClockVal =
          (if force then - 1
           else case CNodeUsers (db s) w of
                  None \<Rightarrow> - 1 | Some cnodeUser \<Rightarrow> clock cnodeUser);
        tables = (if force then deleteAllCNodeUserDataFromDB (Some w) (db s) else db s);
        request = exportQueryParams env ep walletPublicKeys localMaxClockVal
    in acquireLocks walletPublicKeys None s =
         (None, Some (getNodeSyncRedisKey (last walletPublicKeys)),
          s\<lparr>locks := locks s \<union> getNodeSyncRedisKey ` set walletPublicKeys\<rparr>) \<and>
       clock_range_min request = localMaxClockVal + 1 \<and>
       wallet_public_key request = walletPublicKeys \<and>
       processSync env walletPublicKeys ep bn force s =
         (if baselineStatementThrows env
          then Some (Some DatabaseError,
                 s\<lparr>syncHistory := syncHistory s @ map SyncFail walletPublicKeys\<rparr>)
          else catchFinally walletPublicKeys
                 (handleExport env walletPublicKeys bn localMaxClockVal
                    (lastRedisKey walletPublicKeys) (fetchExport env request)
                    (s\<lparr>db := tables,
                       locks := locks s \<union> getNodeSyncRedisKey ` set walletPublicKeys,
                       exportRequests := exportRequests s @ [request]\<rparr>))) \<and>
       (\<forall>r s'. processSync env walletPublicKeys ep bn force s = Some (r, s') \<longrightarrow>
          exportRequests s' =
            exportRequests s @ (if baselineStatementThrows env then [] else [request]) \<and>
          (\<forall>x\<in>set walletPublicKeys. getNodeSyncRedisKey x \<notin> locks s')) \<and>
       (\<not> baselineStatementThrows env \<and>
        (\<forall>u us. fetchExport env request \<noteq> ExportBody (u # us)) \<longrightarrow>
          (\<exists>r s'. processSync env walletPublicKeys ep bn force s = Some (r, s') \<and>
                  db s' = tables \<and> locks s' = locks s)) \<and>
       (force \<and> CNodeUsers (db s) w \<noteq> None \<longrightarrow> CNodeUsers tables w = None) \<and>
       (\<forall>x. x \<noteq> w \<longrightarrow> CNodeUsers tables x = CNodeUsers (db s) x) \<and>
       (CNodeUsers (db s) w = None \<longrightarrow> tables = db s) \<and>
       (\<forall>cnodeUser. CNodeUsers (db s) w = Some cnodeUser \<longrightarrow>
          (\<forall>r\<in>set (ClockRecords (db s)).
              cr_cnodeUserUUID r \<noteq> cnodeUserUUID cnodeUser \<longrightarrow> r \<in> set (ClockRecords tables)) \<and>
          (\<forall>r\<in>set (Files (db s)).
              f_cnodeUserUUID r \<noteq> cnodeUserUUID cnodeUser \<longrightarrow> r \<in> set (Files tables)) \<and>
          (\<forall>r\<in>set (Tracks (db s)).
              t_cnodeUserUUID r \<noteq> cnodeUserUUID cnodeUser \<longrightarrow> r \<in> set (Tracks tables)) \<and>
          (\<forall>r\<in>set (AudiusUsers (db s)).
              au_cnodeUserUUID r \<noteq> cnodeUserUUID cnodeUser \<longrightarrow> r \<in> set (AudiusUsers tables))) \<and>
       (\<forall>x row r s'.
          x \<noteq> w \<and>
          processSync env walletPublicKeys ep bn force
            (s\<lparr>db := (db s)\<lparr>CNodeUsers := (CNodeUsers (db s))(x := row)\<rparr>\<rparr>) = Some (r, s') \<longrightarrow>
          exportRequests s' =
            exportRequests s @ (if baselineStatementThrows env then [] else [request])))"
  (is "_ \<longrightarrow> ?C")
proof (rule impI, elim conjE)
  assume d: "distinct (w # v # rest)"
    and f: "\<forall>x\<in>set (w # v # rest). getNodeSyncRedisKey x \<notin> locks s"
  note fw = firstWallet_def findCNodeUser_def
  show ?C
    apply (unfold Let_def)
    apply (intro conjI)
    subgoal using acquireLocks_free [OF d f, of None] by simp
    subgoal by (simp add: exportQueryParams_def)
    subgoal by (simp add: exportQueryParams_def)
    subgoal using processSync_baseline [OF d f, of env ep bn force] by (simp add: fw)
    subgoal
      using processSync_baseline_requests [OF d f, of env ep bn force]
        processSync_releases_locks [OF d f, of env ep bn force]
      by (simp add: fw)
    subgoal
      using processSync_baseline_no_users [OF d f, of env ep force bn]
      unfolding fw list.case option.case by blast
    subgoal by (auto simp: deleteAllCNodeUserDataFromDB_def)
    subgoal by (simp add: deleteAll_other_users)
    subgoal by (simp add: deleteAll_absent)
    subgoal using deleteAll_keeps_rows [of "db s" w] by simp
    subgoal using processSync_other_wallet_row [OF d f, of _ env ep bn force] by blast
    done
qed

theorem processSync_first_wallet_only_witness:
  "user_clock ''0xAA'' example_state_two = Some 3 \<and>
   user_clock ''0xBB'' example_state_two = Some 10 \<and>
   (\<exists>s'. processSync (example_env []) [''0xAA'', ''0xBB''] ''https://primary'' None True
            example_state_two = Some (None, s') \<and>
         user_clock ''0xAA'' s' = None \<and> user_clock ''0xBB'' s' = Some 10 \<and>
         map cr_cnodeUserUUID (ClockRecords (db s')) = [''uuid-BB-on-secondary''] \<and>
         map multihash (Files (db s')) = [''QmY''] \<and>
         map clock_range_min (exportRequests s') = [0] \<and>
         map wallet_public_key (exportRequests s') = [[''0xAA'', ''0xBB'']]) \<and>
   (\<exists>s'. processSync (example_env []) [''0xAA'', ''0xBB''] ''https://primary'' None False
            example_state_two = Some (None, s') \<and>
         db s' = example_db_two \<and>
         map clock_range_min (exportRequests s') = [4]) \<and>
   (\<exists>s'. processSync (example_env []) [''0xAA'', ''0xBB''] ''https://primary'' None False
            (example_state_two\<lparr>db := example_db_two\<lparr>CNodeUsers :=
               (CNodeUsers example_db_two)(''0xBB'' := Some (example_user_BB\<lparr>clock := 20\<rparr>))\<rparr>\<rparr>)
            = Some (None, s') \<and>
         user_clock ''0xBB'' s' = Some 20 \<and>
         map clock_range_min (exportRequests s') = [4])"
proof -
  let ?ws = "[''0xAA'', ''0xBB'']"
  let ?row = "Some (example_user_BB\<lparr>clock := 20\<rparr>)"
  let ?s = "example_state_two\<lparr>db := example_db_two\<lparr>CNodeUsers :=
               (CNodeUsers example_db_two)(''0xBB'' := ?row)\<rparr>\<rparr>"
  have sd: "db example_state_two = example_db_two"
    by (simp add: example_state_two_def)
  have h: "distinct (''0xAA'' # ''0xBB'' # []) \<and>
           (\<forall>x\<in>set (''0xAA'' # ''0xBB'' # []). getNodeSyncRedisKey x \<notin> locks example_state_two)"
    by (simp add: example_state_two_def)
  have h': "distinct (''0xAA'' # ''0xBB'' # []) \<and>
           (\<forall>x\<in>set (''0xAA'' # ''0xBB'' # []). getNodeSyncRedisKey x \<notin> locks ?s)"
    by (simp add: example_state_two_def)
  note ev = example_defs catchFinally_def handleExport_def releaseLocks_def recordSyncFails_def
    recordSyncFail_def removeLock_def exportQueryParams_def firstWallet_def findCNodeUser_def
    deleteAllCNodeUserDataFromDB_def getNodeSyncRedisKey_def lastRedisKey_def user_clock_def
  note t1 = processSync_first_wallet_only [where w = "''0xAA''" and v = "''0xBB''" and rest = "[]"
        and s = example_state_two and force = True and env = "example_env []"
        and ep = "''https://primary''" and bn = None,
        unfolded Let_def, rule_format, OF h]
  note t2 = processSync_first_wallet_only [where w = "''0xAA''" and v = "''0xBB''" and rest = "[]"
        and s = example_state_two and force = False and env = "example_env []"
        and ep = "''https://primary''" and bn = None,
        unfolded Let_def, rule_format, OF h]
  note t3 = processSync_first_wallet_only [where w = "''0xAA''" and v = "''0xBB''" and rest = "[]"
        and s = ?s and force = False and env = "example_env []"
        and ep = "''https://primary''" and bn = None,
        unfolded Let_def, rule_format, OF h']
  note eq1 = t1 [THEN conjunct2, THEN conjunct2, THEN conjunct2, THEN conjunct1]
  note eq2 = t2 [THEN conjunct2, THEN conjunct2, THEN conjunct2, THEN conjunct1]
  note eq3 = t3 [THEN conjunct2, THEN conjunct2, THEN conjunct2, THEN conjunct1]
  have u: "user_clock ''0xAA'' example_state_two = Some 3"
    "user_clock ''0xBB'' example_state_two = Some 10"
    by (simp_all add: ev)
  have a: "\<exists>s'. processSync (example_env []) ?ws ''https://primary'' None True
            example_state_two = Some (None, s') \<and>
         user_clock ''0xAA'' s' = None \<and> user_clock ''0xBB'' s' = Some 10 \<and>
         map cr_cnodeUserUUID (ClockRecords (db s')) = [''uuid-BB-on-secondary''] \<and>
         map multihash (Files (db s')) = [''QmY''] \<and>
         map clock_range_min (exportRequests s') = [0] \<and>
         map wallet_public_key (exportRequests s') = [?ws]"
    unfolding eq1 by (simp add: ev)
  have b: "\<exists>s'. processSync (example_env []) ?ws ''https://primary'' None False
            example_state_two = Some (None, s') \<and>
         db s' = example_db_two \<and>
         map clock_range_min (exportRequests s') = [4]"
    unfolding eq2 by (simp add: ev)
  have "\<exists>s'. processSync (example_env []) ?ws ''https://primary'' None False ?s = Some (None, s') \<and>
         user_clock ''0xBB'' s' = Some 20"
    unfolding eq3 by (simp add: ev)
  then obtain s' where
    p: "processSync (example_env []) ?ws ''https://primary'' None False ?s = Some (None, s')"
    and q: "user_clock ''0xBB'' s' = Some 20"
    by blast
  have nb: "''0xBB'' \<noteq> ''0xAA''" by simp
  note ind = t2 [THEN conjunct2, THEN conjunct2, THEN conjunct2, THEN conjunct2, THEN conjunct2,
      THEN conjunct2, THEN conjunct2, THEN conjunct2, THEN conjunct2, THEN conjunct2,
      rule_format, unfolded sd, OF conjI [OF nb p]]
  have r: "map clock_range_min (exportRequests s') = [4]"
    unfolding ind by (simp add: ev)
  have c: "\<exists>s'. processSync (example_env []) ?ws ''https://primary'' None False ?s
            = Some (None, s') \<and>
         user_clock ''0xBB'' s' = Some 20 \<and>
         map clock_range_min (exportRequests s') = [4]"
    by (rule exI [of _ s']) (simp only: p q r simp_thms)
  show ?thesis
    by (rule conjI [OF u(1) conjI [OF u(2) conjI [OF a conjI [OF b c]]]])
qed

end
